theory Spec2Isabelle
  imports Complex_Main
begin

section \<open>JavaScript values, truthiness and plain objects\<close>

text \<open>
  The build script and the development helpers are JavaScript. The model keeps the parts of
  the language the verified functions depend on: which values are truthy, what a property
  read returns, what it raises, and what a plain object literal \<^verbatim>\<open>{}\<close> inherits from
  \<^verbatim>\<open>Object.prototype\<close>.
\<close>

datatype js_error = TypeError string | Error string

text \<open>
  A value as \<^verbatim>\<open>JSON.parse\<close> or an object literal produces it. \<open>Builtin k\<close> stands for
  the value found under the inherited property \<open>k\<close> of \<^verbatim>\<open>Object.prototype\<close> (a function,
  or the prototype object itself for \<^verbatim>\<open>__proto__\<close>). Numbers are the finite doubles, as
  rationals; JSON has no NaN.
\<close>

datatype jsval =
    Undefined
  | Null
  | Bool bool
  | Num rat
  | Str string
  | Arr "jsval list"
  | Obj "(string \<times> jsval) list"
  | Builtin string

fun truthy :: "jsval \<Rightarrow> bool" where
  "truthy Undefined = False"
| "truthy Null = False"
| "truthy (Bool b) = b"
| "truthy (Num n) = (n \<noteq> 0)"
| "truthy (Str s) = (s \<noteq> [])"
| "truthy (Arr xs) = True"
| "truthy (Obj ps) = True"
| "truthy (Builtin k) = True"

text \<open>The own property names of \<^verbatim>\<open>Object.prototype\<close>: every plain object has them through
  its prototype chain, so \<^verbatim>\<open>k in {}\<close> is true for each and \<^verbatim>\<open>({})[k]\<close> is not undefined.\<close>

definition objectPrototypeKeys :: "string list" where
  "objectPrototypeKeys =
     [''constructor'', ''__defineGetter__'', ''__defineSetter__'', ''hasOwnProperty'',
      ''__lookupGetter__'', ''__lookupSetter__'', ''isPrototypeOf'', ''propertyIsEnumerable'',
      ''toString'', ''valueOf'', ''__proto__'', ''toLocaleString'']"

text \<open>\<^verbatim>\<open>obj[k]\<close> on a plain object given by its own properties.\<close>

definition objGet :: "(string \<times> jsval) list \<Rightarrow> string \<Rightarrow> jsval" where
  "objGet own k =
     (case map_of own k of
        Some v \<Rightarrow> v
      | None \<Rightarrow> if k \<in> set objectPrototypeKeys then Builtin k else Undefined)"

text \<open>
  \<^verbatim>\<open>data.raw\<close> and \<^verbatim>\<open>data.message\<close>: a property read for a name that no built-in
  prototype defines. It raises on \<^verbatim>\<open>undefined\<close> and \<^verbatim>\<open>null\<close>, finds own properties of
  an object, and is \<^verbatim>\<open>undefined\<close> on primitives, arrays and built-ins.
\<close>

fun getMember :: "jsval \<Rightarrow> string \<Rightarrow> js_error + jsval" where
  "getMember Undefined k = Inl (TypeError ''Cannot read properties of undefined'')"
| "getMember Null k = Inl (TypeError ''Cannot read properties of null'')"
| "getMember (Obj ps) k = Inr (objGet ps k)"
| "getMember v k = Inr Undefined"

section \<open>The development message lookup\<close>

text \<open>
  \<^verbatim>\<open>
  export function _msg(id) {
    const data = messages[id.toString()];
    return data && (data.raw || data.message) || '?';
  }
  \<close>
  \<open>messages\<close> is the imported catalog, a plain object given by its own entries. The
  operators short-circuit: \<^verbatim>\<open>data.raw\<close> is only read when \<open>data\<close> is truthy, and
  \<^verbatim>\<open>data.message\<close> only when \<^verbatim>\<open>data.raw\<close> is falsy.
\<close>

definition msg :: "(string \<times> jsval) list \<Rightarrow> string \<Rightarrow> js_error + jsval" where
  "msg messages ident =
     (let data = objGet messages ident in
      if truthy data then
        (case getMember data ''raw'' of
           Inl e \<Rightarrow> Inl e
         | Inr r \<Rightarrow>
             if truthy r then Inr r
             else (case getMember data ''message'' of
                     Inl e \<Rightarrow> Inl e
                   | Inr m \<Rightarrow> if truthy m then Inr m else Inr (Str ''?'')))
      else Inr (Str ''?''))"

text \<open>The field of a catalog entry as the claim reads it: the own property of an entry that
  is an object, and nothing for any other entry.\<close>

fun entryField :: "jsval \<Rightarrow> string \<Rightarrow> jsval" where
  "entryField (Obj ps) k = (case map_of ps k of Some v \<Rightarrow> v | None \<Rightarrow> Undefined)"
| "entryField v k = Undefined"

section \<open>Entry points and the virtual module resolver\<close>

text \<open>
  \<^verbatim>\<open>entrypoints\<close> is a JavaScript \<^verbatim>\<open>Map\<close> from an id \<^verbatim>\<open>e<N>.js\<close> to the record
  \<^verbatim>\<open>{scriptNode, dir, code}\<close>. A \<^verbatim>\<open>Map\<close> keeps insertion order and has no inherited keys:
  it is an association list with distinct keys, read with \<open>map_of\<close>. The script node is a
  reference into a document: the document's file name and the node's position among the
  document's script elements.
\<close>

type_synonym node_ref = "string \<times> nat"

record entrypoint =
  scriptNode :: node_ref
  dir :: string
  code :: string

type_synonym registry = "(string \<times> entrypoint) list"

text \<open>Decimal digits of a number, as a template literal prints \<^verbatim>\<open>${entrypoints.size}\<close>.\<close>

definition digitChar :: "nat \<Rightarrow> char" where
  "digitChar d = ''0123456789'' ! d"

fun decimal :: "nat \<Rightarrow> string" where
  "decimal n = (if n < 10 then [digitChar n] else decimal (n div 10) @ [digitChar (n mod 10)])"

declare decimal.simps [simp del]

definition entryId :: "nat \<Rightarrow> string" where
  "entryId n = ''e'' @ decimal n @ ''.js''"

text \<open>The registry as extraction leaves it: the \<open>k\<close>-th registered entry has id \<open>e<k>.js\<close>.\<close>

definition wfRegistry :: "registry \<Rightarrow> bool" where
  "wfRegistry reg = (map fst reg = map entryId [0..<length reg])"

definition absolute :: "string \<Rightarrow> bool" where
  "absolute p = (case p of [] \<Rightarrow> False | c # cs \<Rightarrow> c = CHR ''/'')"

text \<open>
  The collaborators of the resolver: the compiling loader
  \<^verbatim>\<open>loader(path, {compile: true})\<close>, which gives the body of its output or \<^verbatim>\<open>undefined\<close>
  (\<open>None\<close>), and Node's \<^verbatim>\<open>path.resolve\<close> and \<^verbatim>\<open>path.dirname\<close>. The loader is a
  function of the path: the sources do not change during one build.
\<close>

record node_path =
  path_resolve :: "string \<Rightarrow> string \<Rightarrow> string"
  path_dirname :: "string \<Rightarrow> string"

record resolver_env = node_path +
  loader :: "string \<Rightarrow> string option"

text \<open>
  The state the plugin closes over: \<^verbatim>\<open>virtualCache\<close>, a plain object with string-valued
  own properties, and, as an observation of the effect, the paths handed to the loader so
  far (one element per invocation).
\<close>

record resolver_state =
  virtualCache :: "string \<rightharpoonup> string"
  loaderCalls :: "string list"

definition initialState :: resolver_state where
  "initialState = \<lparr>virtualCache = Map.empty, loaderCalls = []\<rparr>"

text \<open>
  \<^verbatim>\<open>virtualCache[k] = v\<close> for a string \<open>v\<close>. The key \<^verbatim>\<open>__proto__\<close> names the accessor of
  \<^verbatim>\<open>Object.prototype\<close>, whose setter ignores a value that is not an object: no own property
  is created. Every other key becomes an own property.
\<close>

definition cacheSet :: "(string \<rightharpoonup> string) \<Rightarrow> string \<Rightarrow> string \<Rightarrow> (string \<rightharpoonup> string)" where
  "cacheSet c k v = (if k = ''__proto__'' then c else c(k \<mapsto> v))"

text \<open>\<^verbatim>\<open>load(id) { return virtualCache[id]; }\<close>\<close>

definition load :: "resolver_state \<Rightarrow> string \<Rightarrow> jsval" where
  "load st ident =
     (case virtualCache st ident of
        Some v \<Rightarrow> Str v
      | None \<Rightarrow> if ident \<in> set objectPrototypeKeys then Builtin ident else Undefined)"

text \<open>
  \<^verbatim>\<open>
  async resolveId(id, importer) {
    if (importer === undefined) {
      const data = entrypoints.get(id);
      virtualCache[id] = data.code;
      return id;
    }
    const data = entrypoints.get(importer);
    const resolved = path.resolve(data ? data.dir : path.dirname(importer), id);
    const out = await loader(resolved, {compile: true});
    if (out) {
      virtualCache[resolved] = out.body.toString();
      return resolved;
    }
  },
  \<close>
  The result is the resolved id, or \<open>None\<close> for \<^verbatim>\<open>undefined\<close> (the bundler then asks its
  other resolvers); \<^verbatim>\<open>data.code\<close> on a missing record raises a \<^verbatim>\<open>TypeError\<close>, which
  rejects the promise.
\<close>

definition resolveId ::
  "resolver_env \<Rightarrow> registry \<Rightarrow> resolver_state \<Rightarrow> string \<Rightarrow> string option
     \<Rightarrow> js_error + (string option \<times> resolver_state)" where
  "resolveId env entrypoints st ident importer =
     (case importer of
        None \<Rightarrow>
          (case map_of entrypoints ident of
             None \<Rightarrow> Inl (TypeError ''Cannot read properties of undefined'')
           | Some data \<Rightarrow>
               Inr (Some ident,
                    st\<lparr>virtualCache := cacheSet (virtualCache st) ident (code data)\<rparr>))
      | Some imp \<Rightarrow>
          (let resolved =
                 path_resolve env
                   (case map_of entrypoints imp of
                      Some data \<Rightarrow> dir data
                    | None \<Rightarrow> path_dirname env imp)
                   ident;
               st1 = st\<lparr>loaderCalls := loaderCalls st @ [resolved]\<rparr>
           in case loader env resolved of
                Some body \<Rightarrow>
                  Inr (Some resolved,
                       st1\<lparr>virtualCache := cacheSet (virtualCache st1) resolved body\<rparr>)
              | None \<Rightarrow> Inr (None, st1)))"

text \<open>
  One build run, as the resolver sees it: the bundler issues resolution requests, each an
  identifier and an importer, and stops at the first one that raises. Requests may overlap
  in time, but a request touches the cache only once, after its loader call has returned:
  the run is the sequence of the requests in the order of those moments.
\<close>

type_synonym request = "string \<times> string option"

fun resolveAll ::
  "resolver_env \<Rightarrow> registry \<Rightarrow> resolver_state \<Rightarrow> request list \<Rightarrow> js_error + resolver_state" where
  "resolveAll env entrypoints st [] = Inr st"
| "resolveAll env entrypoints st ((ident, importer) # rs) =
     (case resolveId env entrypoints st ident importer of
        Inl e \<Rightarrow> Inl e
      | Inr (r, st') \<Rightarrow> resolveAll env entrypoints st' rs)"

subsection \<open>Example collaborators\<close>

text \<open>
  Node's \<^verbatim>\<open>path\<close> module is not part of the repository: the resolver takes it as a
  collaborator. For concrete runs, these are its POSIX functions on two arguments, for a
  working directory \<open>cwd\<close> that is an absolute path: \<^verbatim>\<open>path.resolve(from, to)\<close> joins the
  last absolute argument and everything after it (the working directory when neither is
  absolute) and removes empty, \<^verbatim>\<open>.\<close> and \<^verbatim>\<open>..\<close> segments; \<^verbatim>\<open>path.dirname(p)\<close> cuts
  \<open>p\<close> before the slash that ends its directory part.
\<close>

fun splitOn :: "char \<Rightarrow> string \<Rightarrow> string list" where
  "splitOn sep [] = [[]]"
| "splitOn sep (x # xs) =
     (if x = sep then [] # splitOn sep xs
      else (case splitOn sep xs of [] \<Rightarrow> [[x]] | ys # yss \<Rightarrow> (x # ys) # yss))"

fun normalizeSegments :: "string list \<Rightarrow> string list \<Rightarrow> string list" where
  "normalizeSegments acc [] = rev acc"
| "normalizeSegments acc (s # ss) =
     (if s = [] \<or> s = ''.'' then normalizeSegments acc ss
      else if s = ''..'' then normalizeSegments (tl acc) ss
      else normalizeSegments (s # acc) ss)"

fun joinSegments :: "string list \<Rightarrow> string" where
  "joinSegments [] = []"
| "joinSegments [s] = s"
| "joinSegments (s # t # ss) = s @ ''/'' @ joinSegments (t # ss)"

definition posixResolve :: "string \<Rightarrow> string \<Rightarrow> string \<Rightarrow> string" where
  "posixResolve cwd from to =
     CHR ''/'' # joinSegments (normalizeSegments [] (splitOn CHR ''/''
       (if absolute to then to
        else if absolute from then from @ ''/'' @ to
        else cwd @ ''/'' @ from @ ''/'' @ to)))"

fun dirnameScan :: "string \<Rightarrow> nat \<Rightarrow> bool \<Rightarrow> nat option" where
  "dirnameScan p 0 matchedSlash = None"
| "dirnameScan p (Suc i) matchedSlash =
     (if p ! Suc i = CHR ''/''
      then (if \<not> matchedSlash then Some (Suc i) else dirnameScan p i matchedSlash)
      else dirnameScan p i False)"

definition posixDirname :: "string \<Rightarrow> string" where
  "posixDirname p =
     (if p = [] then ''.''
      else (case dirnameScan p (length p - 1) True of
              None \<Rightarrow> if hd p = CHR ''/'' then ''/'' else ''.''
            | Some e \<Rightarrow> if hd p = CHR ''/'' \<and> e = 1 then ''//'' else take e p))"

text \<open>A site rooted at \<^verbatim>\<open>/site\<close> whose loader compiles two source files.\<close>

definition exampleEnv :: resolver_env where
  "exampleEnv =
     \<lparr>path_resolve = posixResolve ''/site'',
      path_dirname = posixDirname,
      loader = (\<lambda>p. if p = ''/site/shared.js'' then Some ''export const shared = 1;''
                   else if p = ''/site/scenes/elf/main.js'' then Some ''import shared from ../../shared.js''
                   else None)\<rparr>"

definition exampleRegistry :: registry where
  "exampleRegistry =
     [(''e0.js'', \<lparr>scriptNode = (''index.html'', 0), dir = ''.'', code = ''import shared from ./shared.js''\<rparr>),
      (''e1.js'', \<lparr>scriptNode = (''scenes/elf/index.html'', 0), dir = ''scenes/elf'',
                  code = ''import main from ./main.js''\<rparr>)]"

text \<open>How often the loader has been invoked for a path, and what a cache may hold: under
  the id of a registered entry that entry's source text, under an absolute path the body
  the loader gives for it.\<close>

definition compileCount :: "resolver_state \<Rightarrow> string \<Rightarrow> nat" where
  "compileCount st p = count_list (loaderCalls st) p"

definition cacheInv :: "resolver_env \<Rightarrow> registry \<Rightarrow> resolver_state \<Rightarrow> bool" where
  "cacheInv env entrypoints st =
     (\<forall>k v. virtualCache st k = Some v \<longrightarrow>
        (\<not> absolute k \<and> (\<exists>data. map_of entrypoints k = Some data \<and> code data = v))
        \<or> (absolute k \<and> loader env k = Some v))"

definition isRelative :: "request \<Rightarrow> bool" where
  "isRelative r = (snd r \<noteq> None)"

text \<open>The path a request with an importer resolves to, the paths a sequence of requests
  hands to the loader (one per request with an importer, in order), and what it means that
  the cache holds what a request stores: for a root request the source text of its entry,
  for a request with an importer the body the loader gives for its path, if it gives one.\<close>

definition requestPath :: "resolver_env \<Rightarrow> registry \<Rightarrow> string \<Rightarrow> string \<Rightarrow> string" where
  "requestPath env entrypoints ident imp =
     path_resolve env
       (case map_of entrypoints imp of
          Some data \<Rightarrow> dir data
        | None \<Rightarrow> path_dirname env imp)
       ident"

fun loaderPaths :: "resolver_env \<Rightarrow> registry \<Rightarrow> request list \<Rightarrow> string list" where
  "loaderPaths env entrypoints [] = []"
| "loaderPaths env entrypoints ((ident, None) # rs) = loaderPaths env entrypoints rs"
| "loaderPaths env entrypoints ((ident, Some imp) # rs) =
     requestPath env entrypoints ident imp # loaderPaths env entrypoints rs"

fun stored :: "resolver_env \<Rightarrow> registry \<Rightarrow> resolver_state \<Rightarrow> request \<Rightarrow> bool" where
  "stored env entrypoints st (ident, None) =
     (case map_of entrypoints ident of
        None \<Rightarrow> False
      | Some data \<Rightarrow> load st ident = Str (code data))"
| "stored env entrypoints st (ident, Some imp) =
     (case loader env (requestPath env entrypoints ident imp) of
        None \<Rightarrow> True
      | Some body \<Rightarrow> load st (requestPath env entrypoints ident imp) = Str body)"

section \<open>Virtual module content\<close>

text \<open>
  \<^verbatim>\<open>
  function virtualModuleContent(id, importer) {
    if (importer === undefined) {
      const virtualSplitIndex = id.indexOf('::\0');
      if (virtualSplitIndex !== -1) {
        const buf = Buffer.from(id.slice(virtualSplitIndex + 3), 'base64');
        return buf.toString();
      }
    }
    if (!id.startsWith('./') && !id.startsWith('../')) {
      return undefined;  // not a real file
    }
    const dir = path.dirname(importer);
    const resolved = path.relative(__dirname, path.resolve(dir, id));
    const sceneName = matchSceneMin(resolved);
    if (sceneName !== null) {
      return (async () => {
        const {js, sourceMap} = await compileScene({sceneName}, true);
        return {code: js, map: sourceMap};
      })();
    }
  }
  \<close>
  The result is a text returned at once, \<^verbatim>\<open>undefined\<close>, or a promise for the compilation
  of a scene: only the last one calls the scene compiler. \<^verbatim>\<open>Buffer.from(s, 'base64')\<close>
  followed by \<^verbatim>\<open>toString()\<close>, \<^verbatim>\<open>path.relative\<close>, \<^verbatim>\<open>__dirname\<close> and \<^verbatim>\<open>matchSceneMin\<close> are
  not defined in the repository's sources and are taken as collaborators.
  \<^verbatim>\<open>path.dirname(undefined)\<close> raises a \<^verbatim>\<open>TypeError\<close>.
\<close>

datatype content = Text string | NoContent | SceneCompilation string

record content_env = node_path +
  fromBase64 :: "string \<Rightarrow> string"
  path_relative :: "string \<Rightarrow> string \<Rightarrow> string"
  rootDir :: string
  matchSceneMin :: "string \<Rightarrow> string option"

text \<open>\<^verbatim>\<open>s.indexOf(needle)\<close>: the least position at which \<open>needle\<close> starts, \<open>None\<close> for
  \<^verbatim>\<open>-1\<close>; and \<^verbatim>\<open>s.startsWith(p)\<close>.\<close>

fun indexOf :: "string \<Rightarrow> string \<Rightarrow> nat option" where
  "indexOf [] needle = (if needle = [] then Some 0 else None)"
| "indexOf (c # cs) needle =
     (if take (length needle) (c # cs) = needle then Some 0
      else map_option Suc (indexOf cs needle))"

definition startsWith :: "string \<Rightarrow> string \<Rightarrow> bool" where
  "startsWith s p = (take (length p) s = p)"

text \<open>The marker \<^verbatim>\<open>'::\0'\<close>: two colons and the character with code 0.\<close>

definition inlineMarker :: string where
  "inlineMarker = [CHR '':'', CHR '':'', CHR 0x00]"

definition virtualModuleContent :: "content_env \<Rightarrow> string \<Rightarrow> string option \<Rightarrow> js_error + content" where
  "virtualModuleContent env ident importer =
     (case (if importer = None then indexOf ident inlineMarker else None) of
        Some virtualSplitIndex \<Rightarrow>
          Inr (Text (fromBase64 env (drop (virtualSplitIndex + 3) ident)))
      | None \<Rightarrow>
          if \<not> startsWith ident ''./'' \<and> \<not> startsWith ident ''../'' then Inr NoContent
          else (case importer of
                  None \<Rightarrow> Inl (TypeError ''ERR_INVALID_ARG_TYPE'')
                | Some imp \<Rightarrow>
                    (let dir = path_dirname env imp;
                         resolved = path_relative env (rootDir env) (path_resolve env dir ident)
                     in case matchSceneMin env resolved of
                          Some sceneName \<Rightarrow> Inr (SceneCompilation sceneName)
                        | None \<Rightarrow> Inr NoContent)))"

text \<open>
  An example decoder: base64 over the standard alphabet up to the first padding character,
  every decoded byte read as one character (ASCII text).
\<close>

definition base64Alphabet :: string where
  "base64Alphabet = ''ABCDEFGHIJKLMNOPQRSTUVWXYZabcdefghijklmnopqrstuvwxyz0123456789+/''"

fun positionIn :: "string \<Rightarrow> char \<Rightarrow> nat option" where
  "positionIn [] c = None"
| "positionIn (x # xs) c = (if x = c then Some 0 else map_option Suc (positionIn xs c))"

definition sextets :: "string \<Rightarrow> nat list" where
  "sextets s = List.map_filter (positionIn base64Alphabet) (takeWhile (\<lambda>c. c \<noteq> CHR ''='') s)"

fun decodeSextets :: "nat list \<Rightarrow> nat list" where
  "decodeSextets (a # b # c # d # rest) =
     (a * 4 + b div 16) # ((b mod 16) * 16 + c div 4) # ((c mod 4) * 64 + d) # decodeSextets rest"
| "decodeSextets [a, b, c] = [a * 4 + b div 16, (b mod 16) * 16 + c div 4]"
| "decodeSextets [a, b] = [a * 4 + b div 16]"
| "decodeSextets rest = []"

definition base64Ascii :: "string \<Rightarrow> string" where
  "base64Ascii s = map char_of (decodeSextets (sextets s))"

definition exampleContentEnv :: content_env where
  "exampleContentEnv =
     \<lparr>path_resolve = posixResolve ''/site'',
      path_dirname = posixDirname,
      fromBase64 = base64Ascii,
      path_relative = (\<lambda>from to. drop (Suc (length from)) to),
      rootDir = ''/site'',
      matchSceneMin = (\<lambda>p. if p = ''scenes/elf/elf-scene.min.js'' then Some ''elf'' else None)\<rparr>"

section \<open>Entry extraction\<close>

text \<open>
  The part of the loop over the HTML entry documents that finds module scripts:
  \<^verbatim>\<open>
  for (const htmlFile of htmlFiles) {
    const dir = path.dirname(htmlFile);
    const document = await dom.read(htmlFile);
    ...
    const allScripts = Array.from(document.querySelectorAll('script')).filter((scriptNode) => {
      return !(scriptNode.src && isUrl(scriptNode.src));
    });
    ...
    const moduleScriptNodes = allScripts.filter((s) => s.type === 'module');
    for (const scriptNode of moduleScriptNodes) {
      let code = scriptNode.textContent;
      if (scriptNode.src) {
        let src = scriptNode.src;
        if (!src.startsWith('.')) {
          src = `./${src}`;
        }
        code = `import '${src}';`
      }
      const id = `e${entrypoints.size}.js`;
      entrypoints.set(id, {scriptNode, dir, code});
      scriptNode.textContent = '';
      scriptNode.removeAttribute('src');
    }
  }
  \<close>
  A document is its file name and its script elements in document order. A script element
  is what the loop reads of it: the properties \<^verbatim>\<open>type\<close>, \<^verbatim>\<open>src\<close> and \<^verbatim>\<open>textContent\<close>, each
  a string; \<^verbatim>\<open>src\<close> is the empty string when the element has no such attribute, so
  \<^verbatim>\<open>if (scriptNode.src)\<close> is the test for a non-empty \<open>src\<close>, and removing the attribute
  makes it empty. The same loop also inlines local style sheets and collects the sources of
  classic scripts; neither touches the registry or a module script and both are left out.
  \<^verbatim>\<open>isUrl\<close> is a collaborator.
\<close>

record script_node =
  stype :: string
  src :: string
  textContent :: string

record html_document =
  htmlFile :: string
  scripts :: "script_node list"

record extract_env = node_path +
  isUrl :: "string \<Rightarrow> bool"

text \<open>\<^verbatim>\<open>entrypoints.set(id, v)\<close>: replaces the value of a key the map has, and appends a new
  key otherwise.\<close>

fun mapSet :: "('k \<times> 'v) list \<Rightarrow> 'k \<Rightarrow> 'v \<Rightarrow> ('k \<times> 'v) list" where
  "mapSet [] k v = [(k, v)]"
| "mapSet ((k', v') # kvs) k v = (if k' = k then (k, v) # kvs else (k', v') # mapSet kvs k v)"

text \<open>The source text of the entry for one module script.\<close>

definition entryCode :: "script_node \<Rightarrow> string" where
  "entryCode node =
     (if src node \<noteq> []
      then ''import '' @ [CHR 0x27]
           @ (if \<not> startsWith (src node) ''.'' then ''./'' @ src node else src node)
           @ [CHR 0x27] @ '';''
      else textContent node)"

text \<open>The positions of the module scripts of a document: the script elements that are not
  remote and whose type is \<^verbatim>\<open>module\<close>.\<close>

definition isModuleScript :: "(string \<Rightarrow> bool) \<Rightarrow> script_node \<Rightarrow> bool" where
  "isModuleScript remote s = (\<not> (src s \<noteq> [] \<and> remote (src s)) \<and> stype s = ''module'')"

definition moduleScriptNodes :: "(string \<Rightarrow> bool) \<Rightarrow> script_node list \<Rightarrow> nat list" where
  "moduleScriptNodes remote nodes = filter (\<lambda>i. isModuleScript remote (nodes ! i)) [0..<length nodes]"

text \<open>The body of the inner loop, over the positions of the module scripts.\<close>

fun extractScripts ::
  "string \<Rightarrow> string \<Rightarrow> registry \<Rightarrow> script_node list \<Rightarrow> nat list \<Rightarrow> registry \<times> script_node list" where
  "extractScripts file d entrypoints nodes [] = (entrypoints, nodes)"
| "extractScripts file d entrypoints nodes (i # rest) =
     (let node = nodes ! i;
          ident = entryId (length entrypoints);
          entrypoints' = mapSet entrypoints ident
                           \<lparr>scriptNode = (file, i), dir = d, code = entryCode node\<rparr>;
          nodes' = nodes[i := node\<lparr>textContent := [], src := []\<rparr>]
      in extractScripts file d entrypoints' nodes' rest)"

definition extractDocument ::
  "extract_env \<Rightarrow> registry \<Rightarrow> html_document \<Rightarrow> registry \<times> html_document" where
  "extractDocument env entrypoints doc =
     (case extractScripts (htmlFile doc) (path_dirname env (htmlFile doc)) entrypoints (scripts doc)
             (moduleScriptNodes (isUrl env) (scripts doc)) of
        (entrypoints', nodes') \<Rightarrow> (entrypoints', doc\<lparr>scripts := nodes'\<rparr>))"

fun extractAll ::
  "extract_env \<Rightarrow> registry \<Rightarrow> html_document list \<Rightarrow> registry \<times> html_document list" where
  "extractAll env entrypoints [] = (entrypoints, [])"
| "extractAll env entrypoints (doc # docs) =
     (case extractDocument env entrypoints doc of
        (entrypoints', doc') \<Rightarrow>
          (case extractAll env entrypoints' docs of
             (entrypoints'', docs') \<Rightarrow> (entrypoints'', doc' # docs')))"

text \<open>An example document: a remote script, a classic script, a module script with a
  source, and an inline module script.\<close>

definition exampleExtractEnv :: extract_env where
  "exampleExtractEnv =
     \<lparr>path_resolve = posixResolve ''/site'',
      path_dirname = posixDirname,
      isUrl = (\<lambda>s. startsWith s ''https://'')\<rparr>"

definition exampleDocument :: html_document where
  "exampleDocument =
     \<lparr>htmlFile = ''scenes/elf/index.html'',
      scripts =
        [\<lparr>stype = ''module'', src = ''https://example.com/lib.js'', textContent = []\<rparr>,
         \<lparr>stype = [], src = ''third_party/lib.js'', textContent = []\<rparr>,
         \<lparr>stype = ''module'', src = ''foo.js'', textContent = []\<rparr>,
         \<lparr>stype = ''module'', src = [], textContent = ''start();''\<rparr>]\<rparr>"

text \<open>The entries the inner loop appends for the module scripts at \<open>positions\<close>, when the
  registry holds \<open>n\<close> entries before.\<close>

definition newEntries :: "string \<Rightarrow> string \<Rightarrow> script_node list \<Rightarrow> nat \<Rightarrow> nat list \<Rightarrow> registry" where
  "newEntries file d nodes n positions =
     map (\<lambda>(k, i). (entryId k, \<lparr>scriptNode = (file, i), dir = d, code = entryCode (nodes ! i)\<rparr>))
       (zip [n..<n + length positions] positions)"

section \<open>The release build\<close>

subsection \<open>The ledger of missing messages\<close>

text \<open>
  \<^verbatim>\<open>
  const missingMessages = {};
  const langs = i18n.all((lang, msgid) => {
    if (!(msgid in missingMessages)) {
      missingMessages[msgid] = new Set();
    }
    missingMessages[msgid].add(lang);
  });
  \<close>
  \<^verbatim>\<open>missingMessages\<close> is a plain object: its own properties, in insertion order, map a
  message id to a \<^verbatim>\<open>Set\<close> of language codes (a list without repetitions, in insertion
  order). \<^verbatim>\<open>msgid in missingMessages\<close> is also true for the names the object inherits from
  \<^verbatim>\<open>Object.prototype\<close>; for such a name no set is created, \<^verbatim>\<open>missingMessages[msgid]\<close> is
  the inherited value, which has no method \<^verbatim>\<open>add\<close>, and the call raises a \<^verbatim>\<open>TypeError\<close>.
\<close>

type_synonym ledger = "(string \<times> string list) list"

definition hasProperty :: "(string \<times> 'v) list \<Rightarrow> string \<Rightarrow> bool" where
  "hasProperty own k = (k \<in> fst ` set own \<or> k \<in> set objectPrototypeKeys)"

definition setAdd :: "'a list \<Rightarrow> 'a \<Rightarrow> 'a list" where
  "setAdd s x = (if x \<in> set s then s else s @ [x])"

definition recordMissing :: "ledger \<Rightarrow> string \<Rightarrow> string \<Rightarrow> js_error + ledger" where
  "recordMissing missingMessages lang msgid =
     (let created = (if \<not> hasProperty missingMessages msgid
                     then mapSet missingMessages msgid []
                     else missingMessages)
      in case map_of created msgid of
           Some missingLangs \<Rightarrow> Inr (mapSet created msgid (setAdd missingLangs lang))
         | None \<Rightarrow> Inl (TypeError ''missingMessages[msgid].add is not a function''))"

text \<open>
  Modelled from the spec: \<^verbatim>\<open>build/i18n.js\<close> is not among the sources. Its \<^verbatim>\<open>all(callback)\<close>
  reads every language's messages, invokes the callback for every language and message id
  found absent, and returns the mapping from language code to lookup function. The
  collaborator is given by what it returns and by the callback invocations it makes
  (\<open>absences\<close>, in order). What it returns is an ordinary object, like every object the
  script creates itself: \<open>languages\<close> are its own properties, one per loaded language in
  insertion order, which \<^verbatim>\<open>Object.keys\<close> and \<^verbatim>\<open>for (const lang in langs)\<close> list, while
  \<^verbatim>\<open>lang in langs\<close> is also true for the names it inherits from \<^verbatim>\<open>Object.prototype\<close>
  (\<open>hasProperty\<close>). A raise in the callback ends the loading.
\<close>

record i18n =
  languages :: "(string \<times> (string \<Rightarrow> string)) list"
  absences :: "(string \<times> string) list"

fun recordAll :: "ledger \<Rightarrow> (string \<times> string) list \<Rightarrow> js_error + ledger" where
  "recordAll missingMessages [] = Inr missingMessages"
| "recordAll missingMessages ((lang, msgid) # rest) =
     (case recordMissing missingMessages lang msgid of
        Inl e \<Rightarrow> Inl e
      | Inr missingMessages' \<Rightarrow> recordAll missingMessages' rest)"

text \<open>A language is recorded for a message id when the ledger has the id as an own key and
  the language is in the set stored under it.\<close>

definition recorded :: "ledger \<Rightarrow> string \<Rightarrow> string \<Rightarrow> bool" where
  "recorded missingMessages lang msgid =
     (case map_of missingMessages msgid of None \<Rightarrow> False | Some missingLangs \<Rightarrow> lang \<in> set missingLangs)"

subsection \<open>The stages of the build\<close>

text \<open>
  What the build does to the outside: directories made, files copied and written, the
  lines of the summary of missing messages, and the warning of the top-level handler.
  Progress messages are left out. A line of the summary carries the message id, the ratio
  in percent and the listed languages; \<open>MissingInfoByZero\<close> is the line printed when
  \<^verbatim>\<open>langs\<close> has no key left, with the size of the set that was divided by zero (the
  quotient is then \<^verbatim>\<open>Infinity\<close>, or \<^verbatim>\<open>NaN\<close> for the size 0, and not a number of percent).
\<close>

datatype effect =
    Mkdirp string
  | CopyFile string string
  | WriteFile string string
  | MissingInfo string rat "string list"
  | MissingInfoByZero string nat "string list"
  | Warn js_error

fun isOutput :: "effect \<Rightarrow> bool" where
  "isOutput (CopyFile from to) = True"
| "isOutput (WriteFile target text) = True"
| "isOutput e = False"

fun isMissingInfo :: "effect \<Rightarrow> bool" where
  "isMissingInfo (MissingInfo msgid ratio rest) = True"
| "isMissingInfo (MissingInfoByZero msgid n rest) = True"
| "isMissingInfo e = False"

text \<open>The options of the command line that the build reads (\<^verbatim>\<open>yargs\<close>).\<close>

record config =
  build :: string
  defaultLang :: string
  defaultOnly :: bool
  baseurl :: string
  prodUrl :: string

text \<open>An entry of the scene table: its property \<^verbatim>\<open>msgid\<close>, when it has one, and its
  flag \<^verbatim>\<open>video\<close>.\<close>

record scene_info =
  sceneMsgid :: "string option"
  video :: bool

text \<open>
  The collaborators of the build: the catalogs, the scene table \<^verbatim>\<open>scenes.json5\<close>, the
  results of the two \<^verbatim>\<open>globAll\<close> calls, \<^verbatim>\<open>releaseHtml.prod\<close> with the document it renders
  for a page or a scene and a lookup function, the manifest's text for a name, the HTML
  entry documents as \<^verbatim>\<open>dom.read\<close> gives them, and everything between entry extraction
  and the summary, up to the last write of a bundle (\<^verbatim>\<open>rollup\<close>, \<^verbatim>\<open>babel\<close>, \<^verbatim>\<open>terser\<close>),
  which gives its effects and the error it raised, if any.
\<close>

record build_env = extract_env +
  path_join :: "string list \<Rightarrow> string"
  path_basename :: "string \<Rightarrow> string"
  catalogs :: i18n
  scenes :: "(string \<times> scene_info) list"
  prodAll :: "string list"
  prodOtherHtml :: "string list"
  pageDocument :: "string \<Rightarrow> string \<Rightarrow> (string \<Rightarrow> string) \<Rightarrow> string"
  sceneDocument :: "string \<Rightarrow> string \<Rightarrow> string \<Rightarrow> (string \<Rightarrow> string) \<Rightarrow> string"
  manifestJson :: "string \<Rightarrow> string"
  htmlDocuments :: "html_document list"
  bundler :: "registry \<Rightarrow> effect list \<times> js_error option"

text \<open>
  \<^verbatim>\<open>
  function pathForLang(lang) {
    if (lang === yargs.defaultLang) {
      return '.';
    }
    return `intl/${lang}_ALL`
  }
  function msgidForScene(id, info) {
    if (!id || !info) {
      return 'santatracker';
    } else if ('msgid' in info) {
      return info.msgid;
    } else if (info.video) {
      return `scene_videoscene_${id}`;
    } else {
      return `scene_${id}`;
    }
  }
  \<close>
\<close>

definition pathForLang :: "config \<Rightarrow> string \<Rightarrow> string" where
  "pathForLang cfg lang = (if lang = defaultLang cfg then ''.'' else ''intl/'' @ lang @ ''_ALL'')"

definition msgidForScene :: "string \<Rightarrow> scene_info \<Rightarrow> string" where
  "msgidForScene ident info =
     (if ident = [] then ''santatracker''
      else (case sceneMsgid info of
              Some m \<Rightarrow> m
            | None \<Rightarrow> if video info then ''scene_videoscene_'' @ ident else ''scene_'' @ ident))"

text \<open>\<^verbatim>\<open>write(target, content)\<close> and \<^verbatim>\<open>copy(src, dst)\<close> make the directory first
  (\<open>write\<close> is a keyword of the theory language).\<close>

definition writeTo :: "'a build_env_scheme \<Rightarrow> string \<Rightarrow> string \<Rightarrow> effect list" where
  "writeTo env target text = [Mkdirp (path_dirname env target), WriteFile target text]"

definition copyTo :: "'a build_env_scheme \<Rightarrow> string \<Rightarrow> string \<Rightarrow> effect list" where
  "copyTo env from to = [Mkdirp (path_dirname env to), CopyFile from to]"

text \<open>
  The documents of the production site, in the order the script writes them: the copies of
  the other assets (\<^verbatim>\<open>releaseAll\<close>; the copies run concurrently and are listed file by
  file), every other page for every language, the index page for every scene and language,
  and the manifest for every language. \<open>langs\<close> is the object \<^verbatim>\<open>langs\<close> at that moment.
\<close>

definition prodDocuments ::
  "config \<Rightarrow> build_env \<Rightarrow> (string \<times> (string \<Rightarrow> string)) list \<Rightarrow> effect list" where
  "prodDocuments cfg env langs =
     concat (map (\<lambda>p. copyTo env p (path_join env [''dist'', p])) (prodAll env))
     @ concat (map (\<lambda>htmlFile.
         concat (map (\<lambda>(lang, messages).
           writeTo env (path_join env [''dist/prod'', pathForLang cfg lang, path_basename env htmlFile])
             (pageDocument env htmlFile (baseurl cfg @ build cfg @ ''/'') messages)) langs))
         (prodOtherHtml env))
     @ concat (map (\<lambda>(sceneName, info).
         concat (map (\<lambda>(lang, messages).
           writeTo env (path_join env [''dist/prod'', pathForLang cfg lang,
                        if sceneName = [] then ''index.html'' else sceneName @ ''.html''])
             (sceneDocument env sceneName (msgidForScene sceneName info)
                (baseurl cfg @ build cfg @ ''/'') messages)) langs))
         (scenes env))
     @ concat (map (\<lambda>(lang, messages).
         writeTo env (path_join env [''dist/prod'', pathForLang cfg lang, ''manifest.json''])
           (manifestJson env (messages ''santatracker''))) langs)"

text \<open>
  \<^verbatim>\<open>
  const missingMessagesKeys = Object.keys(missingMessages);
  if (missingMessagesKeys.length) {
    log(`Missing ${color.red(missingMessagesKeys.length)} messages:`);
    missingMessagesKeys.forEach((msgid) => {
      const missingLangs = missingMessages[msgid];
      const ratio = (missingLangs.size / Object.keys(langs).length * 100).toFixed() + '%';
      const rest = (missingLangs.size <= 10) ? `[${[...missingLangs]}]` : '';
      console.info(color.yellow(msgid), 'for', color.red(ratio), 'of langs', rest);
    });
  }
  \<close>
  One line per message id. The ratio is kept as the exact number of percent; its rounding
  to a whole number by \<^verbatim>\<open>toFixed\<close> on a floating-point value is not modelled.
  \<^verbatim>\<open>Object.keys\<close> lists keys that are array indices first; the order of the lines for such
  ids is not modelled either.
\<close>

definition missingSummary :: "ledger \<Rightarrow> (string \<times> (string \<Rightarrow> string)) list \<Rightarrow> effect list" where
  "missingSummary missingMessages langs =
     map (\<lambda>(msgid, missingLangs).
            if length langs = 0
            then MissingInfoByZero msgid (length missingLangs)
                   (if length missingLangs \<le> 10 then missingLangs else [])
            else MissingInfo msgid (of_nat (length missingLangs) / of_nat (length langs) * 100)
                   (if length missingLangs \<le> 10 then missingLangs else []))
       missingMessages"

text \<open>
  \<^verbatim>\<open>release()\<close>: the effects of the build and the error it raised, if any. In the order of
  the script: the two output directories; the catalogs with the ledger's callback; the
  check \<^verbatim>\<open>if (!(yargs.defaultLang in langs)) throw ...\<close>, which a name inherited from
  \<^verbatim>\<open>Object.prototype\<close> passes as a loaded language does; with \<^verbatim>\<open>--default-only\<close>, the
  removal of every other key from \<^verbatim>\<open>langs\<close>; the documents of the production site, one
  set per key that \<^verbatim>\<open>langs\<close> still has; entry extraction and the bundles; the summary of
  missing messages.
\<close>

definition release :: "config \<Rightarrow> build_env \<Rightarrow> effect list \<times> js_error option" where
  "release cfg env =
     (let made = [Mkdirp ''dist/static'', Mkdirp ''dist/prod''] in
      case recordAll [] (absences (catalogs env)) of
        Inl e \<Rightarrow> (made, Some e)
      | Inr missingMessages \<Rightarrow>
          if \<not> hasProperty (languages (catalogs env)) (defaultLang cfg)
          then (made, Some (Error (''default lang '' @ [CHR 0x27] @ defaultLang cfg @ [CHR 0x27]
                                     @ '' not found in _messages'')))
          else
            (let langs = (if defaultOnly cfg
                          then filter (\<lambda>(otherLang, messages). otherLang = defaultLang cfg)
                                 (languages (catalogs env))
                          else languages (catalogs env));
                 documents = prodDocuments cfg env langs;
                 entrypoints = fst (extractAll (extract_env.truncate env) [] (htmlDocuments env))
             in case bundler env entrypoints of
                  (bundles, Some e) \<Rightarrow> (made @ documents @ bundles, Some e)
                | (bundles, None) \<Rightarrow>
                    (made @ documents @ bundles @ missingSummary missingMessages langs, None)))"

text \<open>
  \<^verbatim>\<open>
  release().catch((err) => {
    console.warn(err);
    process.exit(1);
  });
  \<close>
  The effects of the whole process and its exit status.
\<close>

definition main :: "config \<Rightarrow> build_env \<Rightarrow> effect list \<times> nat" where
  "main cfg env =
     (case release cfg env of
        (effects, Some err) \<Rightarrow> (effects @ [Warn err], 1)
      | (effects, None) \<Rightarrow> (effects, 0))"

text \<open>
  An example build: three languages, of which French and German lack the message
  \<^verbatim>\<open>scene_elf\<close>; one scene besides the index; one other page and one asset.
\<close>

definition posixJoin :: "string list \<Rightarrow> string" where
  "posixJoin parts = joinSegments (normalizeSegments [] (concat (map (splitOn CHR ''/'') parts)))"

definition posixBasename :: "string \<Rightarrow> string" where
  "posixBasename p = last (splitOn CHR ''/'' p)"

definition exampleConfig :: config where
  "exampleConfig =
     \<lparr>build = ''v1'', defaultLang = ''en'', defaultOnly = True,
      baseurl = ''https://static.example/'', prodUrl = ''https://example/''\<rparr>"

definition exampleBuildEnv :: build_env where
  "exampleBuildEnv =
     \<lparr>path_resolve = posixResolve ''/site'',
      path_dirname = posixDirname,
      isUrl = (\<lambda>s. startsWith s ''https://''),
      path_join = posixJoin,
      path_basename = posixBasename,
      catalogs =
        \<lparr>languages = [(''en'', \<lambda>m. ''en:'' @ m), (''fr'', \<lambda>m. ''fr:'' @ m), (''de'', \<lambda>m. ''de:'' @ m)],
         absences = [(''fr'', ''scene_elf''), (''de'', ''scene_elf'')]\<rparr>,
      scenes = [([], \<lparr>sceneMsgid = None, video = False\<rparr>), (''elf'', \<lparr>sceneMsgid = None, video = False\<rparr>)],
      prodAll = [''prod/images/logo.png''],
      prodOtherHtml = [''prod/error.html''],
      pageDocument = (\<lambda>htmlFile static messages. messages ''error''),
      sceneDocument = (\<lambda>sceneName title static messages. messages title),
      manifestJson = (\<lambda>name. name),
      htmlDocuments = [exampleDocument],
      bundler = (\<lambda>entrypoints. (map (\<lambda>(ident, e). WriteFile (''dist/static/src/'' @ ident) (code e))
                                   entrypoints, None))\<rparr>"

section \<open>Properties of the development message lookup\<close>

lemma getMember_truthy:
  "truthy d \<Longrightarrow> k \<notin> set objectPrototypeKeys \<Longrightarrow> getMember d k = Inr (entryField d k)"
  by (cases d) (auto simp: objGet_def split: option.splits)

lemma raw_not_inherited: "''raw'' \<notin> set objectPrototypeKeys"
  by (simp add: objectPrototypeKeys_def)

lemma message_not_inherited: "''message'' \<notin> set objectPrototypeKeys"
  by (simp add: objectPrototypeKeys_def)

text \<open>
  Claim C10. \<open>_msg\<close> is total over string ids and never raises. For an id that is not a key
  of the catalog, or whose entry has neither a truthy \<open>raw\<close> nor a truthy \<open>message\<close> field,
  it returns the string \<open>?\<close>; otherwise it returns the entry's \<open>raw\<close> field when that is
  truthy, else its \<open>message\<close> field.
\<close>

theorem msg_total:
  "msg messages ident =
     Inr (case map_of messages ident of
            None \<Rightarrow> Str ''?''
          | Some d \<Rightarrow>
              if truthy (entryField d ''raw'') then entryField d ''raw''
              else if truthy (entryField d ''message'') then entryField d ''message''
              else Str ''?'')"
proof (cases "map_of messages ident")
  case None
  then show ?thesis
    by (simp add: msg_def objGet_def)
next
  case (Some d)
  then have data: "objGet messages ident = d"
    by (simp add: objGet_def)
  show ?thesis
  proof (cases "truthy d")
    case True
    then show ?thesis
      using Some data raw_not_inherited message_not_inherited
      by (simp add: msg_def getMember_truthy)
  next
    case False
    then have "entryField d ''raw'' = Undefined" "entryField d ''message'' = Undefined"
      by (cases d; simp)+
    with False Some data show ?thesis
      by (simp add: msg_def)
  qed
qed

section \<open>Properties of the resolver\<close>

lemma entryId_not_absolute: "\<not> absolute (entryId n)"
  by (simp add: entryId_def absolute_def)

lemma entryId_not_proto: "entryId n \<noteq> ''__proto__''"
  by (simp add: entryId_def)

lemma absolute_not_proto: "absolute p \<Longrightarrow> p \<noteq> ''__proto__''"
  by (auto simp: absolute_def)

lemma wfRegistry_key:
  assumes "wfRegistry reg" and "map_of reg k = Some d"
  shows "\<exists>n. k = entryId n"
proof -
  from assms(2) have "k \<in> set (map fst reg)"
    by (metis map_of_SomeD set_zip_leftD zip_map_fst_snd)
  with assms(1) show ?thesis
    by (auto simp: wfRegistry_def)
qed

lemma absolute_posixResolve: "absolute (posixResolve cwd from to)"
  by (simp add: posixResolve_def absolute_def)

lemma wfRegistry_example: "wfRegistry exampleRegistry"
  by (simp add: wfRegistry_def exampleRegistry_def entryId_def decimal.simps digitChar_def upt_rec)

lemma cacheInv_initial: "cacheInv env entrypoints initialState"
  by (simp add: cacheInv_def initialState_def)

lemma resolveId_step_root:
  assumes wf: "wfRegistry entrypoints"
    and inv: "cacheInv env entrypoints st"
    and step: "resolveId env entrypoints st ident None = Inr (r, st')"
  shows "cacheInv env entrypoints st'
       \<and> (\<forall>k v. virtualCache st k = Some v \<longrightarrow> virtualCache st' k = Some v)
       \<and> loaderCalls st' = loaderCalls st"
proof -
  from step obtain data where data: "map_of entrypoints ident = Some data"
    by (auto simp: resolveId_def split: option.splits)
  with wf obtain n where n: "ident = entryId n"
    using wfRegistry_key by blast
  from step data n have st': "st' = st\<lparr>virtualCache := (virtualCache st)(ident \<mapsto> code data)\<rparr>"
    by (simp add: resolveId_def cacheSet_def entryId_not_proto)
  have notabs: "\<not> absolute ident"
    using n entryId_not_absolute by simp
  have keep: "virtualCache st ident = Some v \<Longrightarrow> v = code data" for v
  proof -
    assume "virtualCache st ident = Some v"
    with inv have "(\<not> absolute ident \<and> (\<exists>d. map_of entrypoints ident = Some d \<and> code d = v))
        \<or> (absolute ident \<and> loader env ident = Some v)"
      unfolding cacheInv_def by blast
    with notabs data show "v = code data" by auto
  qed
  show ?thesis
    using inv data notabs keep by (auto simp: st' cacheInv_def)
qed

lemma resolveId_step_relative:
  assumes ab: "\<forall>base ident. absolute (path_resolve env base ident)"
    and inv: "cacheInv env entrypoints st"
    and step: "resolveId env entrypoints st ident (Some imp) = Inr (r, st')"
  shows "cacheInv env entrypoints st'
       \<and> (\<forall>k v. virtualCache st k = Some v \<longrightarrow> virtualCache st' k = Some v)
       \<and> length (loaderCalls st') = Suc (length (loaderCalls st))"
proof -
  define resolved where
    "resolved = path_resolve env (case map_of entrypoints imp of
                                    Some data \<Rightarrow> dir data
                                  | None \<Rightarrow> path_dirname env imp) ident"
  have abs: "absolute resolved"
    using ab by (simp add: resolved_def)
  then have np: "resolved \<noteq> ''__proto__''"
    by (rule absolute_not_proto)
  show ?thesis
  proof (cases "loader env resolved")
    case None
    with step have "st' = st\<lparr>loaderCalls := loaderCalls st @ [resolved]\<rparr>"
      by (simp add: resolveId_def Let_def resolved_def)
    with inv show ?thesis
      by (simp add: cacheInv_def)
  next
    case (Some body)
    with step np have st': "st' = st\<lparr>loaderCalls := loaderCalls st @ [resolved],
                                     virtualCache := (virtualCache st)(resolved \<mapsto> body)\<rparr>"
      by (simp add: resolveId_def Let_def resolved_def cacheSet_def)
    have keep: "virtualCache st resolved = Some v \<Longrightarrow> v = body" for v
    proof -
      assume "virtualCache st resolved = Some v"
      with inv have "(\<not> absolute resolved \<and> (\<exists>d. map_of entrypoints resolved = Some d \<and> code d = v))
          \<or> (absolute resolved \<and> loader env resolved = Some v)"
        unfolding cacheInv_def by blast
      with abs Some show "v = body" by auto
    qed
    show ?thesis
      using inv abs Some keep by (auto simp: st' cacheInv_def)
  qed
qed

lemma resolveAll_run:
  assumes wf: "wfRegistry entrypoints"
    and ab: "\<forall>base ident. absolute (path_resolve env base ident)"
  shows "cacheInv env entrypoints st \<Longrightarrow> resolveAll env entrypoints st rs = Inr st' \<Longrightarrow>
         cacheInv env entrypoints st'
       \<and> (\<forall>k v. virtualCache st k = Some v \<longrightarrow> virtualCache st' k = Some v)
       \<and> length (loaderCalls st') = length (loaderCalls st) + length (filter isRelative rs)"
proof (induction rs arbitrary: st)
  case Nil
  then show ?case by simp
next
  case (Cons req rs)
  obtain ident importer where req: "req = (ident, importer)"
    by (cases req)
  from Cons.prems(2) req obtain r st1 where
    step: "resolveId env entrypoints st ident importer = Inr (r, st1)"
    and rest: "resolveAll env entrypoints st1 rs = Inr st'"
    by (auto split: sum.splits)
  have one: "cacheInv env entrypoints st1
       \<and> (\<forall>k v. virtualCache st k = Some v \<longrightarrow> virtualCache st1 k = Some v)
       \<and> length (loaderCalls st1) = length (loaderCalls st) + (if importer = None then 0 else 1)"
  proof (cases importer)
    case None
    with step resolveId_step_root [OF wf Cons.prems(1)] show ?thesis by simp
  next
    case (Some imp)
    with step resolveId_step_relative [OF ab Cons.prems(1)] show ?thesis by simp
  qed
  from Cons.IH [OF _ rest] one
  have "cacheInv env entrypoints st'
       \<and> (\<forall>k v. virtualCache st1 k = Some v \<longrightarrow> virtualCache st' k = Some v)
       \<and> length (loaderCalls st') = length (loaderCalls st1) + length (filter isRelative rs)"
    by simp
  moreover have "isRelative req = (importer \<noteq> None)"
    by (simp add: req isRelative_def)
  ultimately show ?case
    using one by simp
qed

subsection \<open>Runs on the example site\<close>

lemma example_e1:
  "map_of exampleRegistry ''e1.js'' =
     Some \<lparr>scriptNode = (''scenes/elf/index.html'', 0), dir = ''scenes/elf'',
            code = ''import main from ./main.js''\<rparr>"
  by (simp add: exampleRegistry_def)

lemma example_not_registered:
  "map_of exampleRegistry ''./shared.js'' = None"
  "map_of exampleRegistry ''/site/scenes/elf/main.js'' = None"
  by (simp_all add: exampleRegistry_def)

lemma example_paths:
  "path_resolve exampleEnv ''scenes/elf'' ''./main.js'' = ''/site/scenes/elf/main.js''"
  "path_resolve exampleEnv ''.'' ''./shared.js'' = ''/site/shared.js''"
  "path_dirname exampleEnv ''/site/scenes/elf/main.js'' = ''/site/scenes/elf''"
  "path_resolve exampleEnv ''/site/scenes/elf'' ''../../shared.js'' = ''/site/shared.js''"
  unfolding exampleEnv_def by (simp; code_simp)+

lemma example_loader:
  "loader exampleEnv ''/site/scenes/elf/main.js'' = Some ''import shared from ../../shared.js''"
  "loader exampleEnv ''/site/shared.js'' = Some ''export const shared = 1;''"
  "loader exampleEnv ''/site/scenes/elf/missing.js'' = None"
  by (simp_all add: exampleEnv_def)

lemma example_e0:
  "map_of exampleRegistry ''e0.js'' =
     Some \<lparr>scriptNode = (''index.html'', 0), dir = ''.'', code = ''import shared from ./shared.js''\<rparr>"
  by (simp add: exampleRegistry_def)

lemma example_missing:
  "path_resolve exampleEnv ''scenes/elf'' ''./missing.js'' = ''/site/scenes/elf/missing.js''"
  unfolding exampleEnv_def by (simp; code_simp)

lemma example_absolute: "\<forall>base ident. absolute (path_resolve exampleEnv base ident)"
  by (simp add: exampleEnv_def absolute_posixResolve)

lemma example_run1:
  "resolveAll exampleEnv exampleRegistry initialState
     [(''e0.js'', None), (''./shared.js'', Some ''e0.js'')] =
   Inr \<lparr>virtualCache = [''e0.js'' \<mapsto> ''import shared from ./shared.js'',
                         ''/site/shared.js'' \<mapsto> ''export const shared = 1;''],
        loaderCalls = [''/site/shared.js'']\<rparr>"
  by (simp add: resolveId_def Let_def cacheSet_def initialState_def example_e0 example_paths example_loader)

lemma example_run2:
  "resolveAll exampleEnv exampleRegistry
     \<lparr>virtualCache = [''e0.js'' \<mapsto> ''import shared from ./shared.js'',
                      ''/site/shared.js'' \<mapsto> ''export const shared = 1;''],
      loaderCalls = [''/site/shared.js'']\<rparr>
     [(''e1.js'', None), (''./main.js'', Some ''e1.js''),
      (''../../shared.js'', Some ''/site/scenes/elf/main.js'')] =
   Inr \<lparr>virtualCache = [''e0.js'' \<mapsto> ''import shared from ./shared.js'',
                         ''/site/shared.js'' \<mapsto> ''export const shared = 1;'',
                         ''e1.js'' \<mapsto> ''import main from ./main.js'',
                         ''/site/scenes/elf/main.js'' \<mapsto> ''import shared from ../../shared.js'',
                         ''/site/shared.js'' \<mapsto> ''export const shared = 1;''],
        loaderCalls = [''/site/shared.js'', ''/site/scenes/elf/main.js'', ''/site/shared.js'']\<rparr>"
  by (simp add: resolveId_def Let_def cacheSet_def example_e1 example_not_registered example_paths example_loader)

subsection \<open>Root resolution\<close>

text \<open>
  Claim C9. Root resolution (no importer) is total only for registered entry ids: for an
  identifier that is not in the registry the resolver raises the \<^verbatim>\<open>TypeError\<close> of reading
  \<^verbatim>\<open>code\<close> from a missing record, without trying another rule and without returning
  \<^verbatim>\<open>undefined\<close>; for a registered id it stores the entry's source text in the cache under
  that id, invokes no loader, and returns the id.
\<close>

theorem resolveId_root:
  assumes "wfRegistry entrypoints"
  shows "resolveId env entrypoints st ident None =
           (case map_of entrypoints ident of
              None \<Rightarrow> Inl (TypeError ''Cannot read properties of undefined'')
            | Some data \<Rightarrow>
                Inr (Some ident, st\<lparr>virtualCache := (virtualCache st)(ident \<mapsto> code data)\<rparr>))"
proof (cases "map_of entrypoints ident")
  case None
  then show ?thesis by (simp add: resolveId_def)
next
  case (Some data)
  with assms obtain n where "ident = entryId n"
    using wfRegistry_key by blast
  then have "ident \<noteq> ''__proto__''"
    by (simp add: entryId_not_proto)
  with Some show ?thesis
    by (simp add: resolveId_def cacheSet_def)
qed

text \<open>
  On the example site: \<^verbatim>\<open>e1.js\<close> is registered and resolves to itself with its source
  cached; \<^verbatim>\<open>./shared.js\<close> is not and raises.
\<close>

theorem resolveId_root_witness:
  "wfRegistry exampleRegistry
   \<and> resolveId exampleEnv exampleRegistry initialState ''e1.js'' None =
       Inr (Some ''e1.js'',
            \<lparr>virtualCache = [''e1.js'' \<mapsto> ''import main from ./main.js''], loaderCalls = []\<rparr>)
   \<and> resolveId exampleEnv exampleRegistry initialState ''./shared.js'' None =
       Inl (TypeError ''Cannot read properties of undefined'')"
  using resolveId_root [OF wfRegistry_example, of exampleEnv initialState "''e1.js''"]
        resolveId_root [OF wfRegistry_example, of exampleEnv initialState "''./shared.js''"]
  by (simp add: wfRegistry_example example_e1 example_not_registered initialState_def)

subsection \<open>Relative resolution\<close>

text \<open>
  Claim C6. With a defined importer, the base directory is the owning directory of the
  entry point when the importer is a registered entry id, and the directory part of the
  importer's own path otherwise. The identifier resolved against that base is the one path
  handed to the loader, and it is the resolved module id whenever the loader succeeds.
\<close>

theorem resolveId_base_directory:
  assumes "base = (case map_of entrypoints importer of
                     Some data \<Rightarrow> dir data
                   | None \<Rightarrow> path_dirname env importer)"
    and "resolved = path_resolve env base ident"
  shows "\<exists>r st'. resolveId env entrypoints st ident (Some importer) = Inr (r, st')
           \<and> loaderCalls st' = loaderCalls st @ [resolved]
           \<and> r = (if loader env resolved = None then None else Some resolved)"
  using assms by (auto simp: resolveId_def Let_def split: option.splits)

text \<open>
  On the example site: an import from the entry \<^verbatim>\<open>e1.js\<close> resolves against the entry's
  directory \<^verbatim>\<open>scenes/elf\<close>, an import from a file against that file's directory.
\<close>

theorem resolveId_base_directory_witness:
  "(\<exists>r st'. resolveId exampleEnv exampleRegistry initialState ''./main.js'' (Some ''e1.js'') = Inr (r, st')
       \<and> loaderCalls st' = loaderCalls initialState @ [''/site/scenes/elf/main.js'']
       \<and> r = Some ''/site/scenes/elf/main.js'')
   \<and> (\<exists>r st'. resolveId exampleEnv exampleRegistry initialState ''../../shared.js''
                  (Some ''/site/scenes/elf/main.js'') = Inr (r, st')
       \<and> loaderCalls st' = loaderCalls initialState @ [''/site/shared.js'']
       \<and> r = Some ''/site/shared.js'')"
  using resolveId_base_directory [where base = "''scenes/elf''" and entrypoints = exampleRegistry
          and importer = "''e1.js''" and env = exampleEnv and resolved = "''/site/scenes/elf/main.js''"
          and ident = "''./main.js''" and st = initialState]
        resolveId_base_directory [where base = "''/site/scenes/elf''" and entrypoints = exampleRegistry
          and importer = "''/site/scenes/elf/main.js''" and env = exampleEnv
          and resolved = "''/site/shared.js''" and ident = "''../../shared.js''" and st = initialState]
  by (simp add: example_e1 example_not_registered example_paths example_loader)

text \<open>
  Claim C7. For a relative request whose resolved path is absolute: when the loader returns
  \<^verbatim>\<open>undefined\<close> the resolver returns \<^verbatim>\<open>undefined\<close> and leaves the cache as it was; when
  the loader returns an output, its body is stored in the cache under the resolved path,
  which is returned as the module id, and a later \<^verbatim>\<open>load\<close> of that path gives the body.
\<close>

theorem resolveId_loader_outcome:
  assumes "resolved = path_resolve env (case map_of entrypoints importer of
                                          Some data \<Rightarrow> dir data
                                        | None \<Rightarrow> path_dirname env importer) ident"
    and "absolute resolved"
  shows "(loader env resolved = None \<longrightarrow>
            (\<exists>st'. resolveId env entrypoints st ident (Some importer) = Inr (None, st')
               \<and> virtualCache st' = virtualCache st))
       \<and> (\<forall>body. loader env resolved = Some body \<longrightarrow>
            (\<exists>st'. resolveId env entrypoints st ident (Some importer) = Inr (Some resolved, st')
               \<and> virtualCache st' = (virtualCache st)(resolved \<mapsto> body)
               \<and> load st' resolved = Str body))"
  using assms absolute_not_proto [of resolved]
  by (auto simp: resolveId_def Let_def cacheSet_def load_def split: option.splits)

text \<open>
  On the example site: \<^verbatim>\<open>./main.js\<close> is compiled and cached, \<^verbatim>\<open>./missing.js\<close> is not
  a source the loader knows.
\<close>

theorem resolveId_loader_outcome_witness:
  "absolute ''/site/scenes/elf/main.js''
   \<and> (\<exists>st'. resolveId exampleEnv exampleRegistry initialState ''./main.js'' (Some ''e1.js'') =
               Inr (Some ''/site/scenes/elf/main.js'', st')
          \<and> virtualCache st' = [''/site/scenes/elf/main.js'' \<mapsto> ''import shared from ../../shared.js'']
          \<and> load st' ''/site/scenes/elf/main.js'' = Str ''import shared from ../../shared.js'')
   \<and> absolute ''/site/scenes/elf/missing.js''
   \<and> (\<exists>st'. resolveId exampleEnv exampleRegistry initialState ''./missing.js'' (Some ''e1.js'') = Inr (None, st')
          \<and> virtualCache st' = Map.empty)"
proof -
  have a1: "absolute ''/site/scenes/elf/main.js''" and a2: "absolute ''/site/scenes/elf/missing.js''"
    by (simp_all add: absolute_def)
  have r1: "''/site/scenes/elf/main.js'' =
      path_resolve exampleEnv (case map_of exampleRegistry ''e1.js'' of
                                 Some data \<Rightarrow> dir data
                               | None \<Rightarrow> path_dirname exampleEnv ''e1.js'') ''./main.js''"
    by (simp add: example_e1 example_paths)
  have r2: "''/site/scenes/elf/missing.js'' =
      path_resolve exampleEnv (case map_of exampleRegistry ''e1.js'' of
                                 Some data \<Rightarrow> dir data
                               | None \<Rightarrow> path_dirname exampleEnv ''e1.js'') ''./missing.js''"
    by (simp add: example_e1 example_missing)
  show ?thesis
    using resolveId_loader_outcome [OF r1 a1, of initialState]
          resolveId_loader_outcome [OF r2 a2, of initialState]
    by (simp add: a1 a2 example_loader initialState_def)
qed

subsection \<open>The cache over one build run\<close>

text \<open>What one request does to the cache, whatever the cache held before, and to the trace of
  loader calls.\<close>

lemma resolveId_root_write:
  assumes "wfRegistry entrypoints" and "map_of entrypoints ident = Some data"
  shows "resolveId env entrypoints st ident None =
           Inr (Some ident, st\<lparr>virtualCache := (virtualCache st)(ident \<mapsto> code data)\<rparr>)"
proof -
  from assms obtain n where "ident = entryId n"
    using wfRegistry_key by blast
  then have "ident \<noteq> ''__proto__''"
    by (simp add: entryId_not_proto)
  with assms(2) show ?thesis
    by (simp add: resolveId_def cacheSet_def)
qed

lemma resolveId_relative_write:
  assumes "absolute (requestPath env entrypoints ident imp)"
    and "loader env (requestPath env entrypoints ident imp) = Some body"
  shows "resolveId env entrypoints st ident (Some imp) =
           Inr (Some (requestPath env entrypoints ident imp),
                st\<lparr>loaderCalls := loaderCalls st @ [requestPath env entrypoints ident imp],
                   virtualCache := (virtualCache st)(requestPath env entrypoints ident imp \<mapsto> body)\<rparr>)"
  using assms absolute_not_proto [OF assms(1)]
  by (simp add: resolveId_def Let_def cacheSet_def requestPath_def)

lemma resolveId_relative_calls:
  assumes "resolveId env entrypoints st ident (Some imp) = Inr (r, st')"
  shows "loaderCalls st' = loaderCalls st @ [requestPath env entrypoints ident imp]"
  using assms by (auto simp: resolveId_def Let_def requestPath_def split: option.splits)

lemma resolveId_root_calls:
  assumes "resolveId env entrypoints st ident None = Inr (r, st')"
  shows "loaderCalls st' = loaderCalls st"
  using assms by (auto simp: resolveId_def split: option.splits)

lemma resolveAll_trace:
  "resolveAll env entrypoints st rs = Inr st' \<Longrightarrow>
     loaderCalls st' = loaderCalls st @ loaderPaths env entrypoints rs"
proof (induction rs arbitrary: st)
  case Nil
  then show ?case by simp
next
  case (Cons req rs)
  obtain ident importer where req: "req = (ident, importer)"
    by (cases req)
  from Cons.prems req obtain r st1 where
    step: "resolveId env entrypoints st ident importer = Inr (r, st1)"
    and rest: "resolveAll env entrypoints st1 rs = Inr st'"
    by (auto split: sum.splits)
  from Cons.IH [OF rest] have tail: "loaderCalls st' = loaderCalls st1 @ loaderPaths env entrypoints rs" .
  show ?case
  proof (cases importer)
    case None
    with step tail req resolveId_root_calls show ?thesis by fastforce
  next
    case (Some imp)
    with step tail req resolveId_relative_calls show ?thesis by fastforce
  qed
qed

lemma stored_step:
  assumes "wfRegistry entrypoints"
    and "\<forall>base ident. absolute (path_resolve env base ident)"
    and "resolveId env entrypoints st ident importer = Inr (r, st')"
  shows "stored env entrypoints st' (ident, importer)"
proof (cases importer)
  case None
  with assms(3) obtain data where data: "map_of entrypoints ident = Some data"
    by (auto simp: resolveId_def split: option.splits)
  from resolveId_root_write [OF assms(1) data, of env st] assms(3) None
  have "st' = st\<lparr>virtualCache := (virtualCache st)(ident \<mapsto> code data)\<rparr>"
    by simp
  with None data show ?thesis
    by (simp add: load_def)
next
  case (Some imp)
  have ab: "absolute (requestPath env entrypoints ident imp)"
    using assms(2) by (simp add: requestPath_def)
  show ?thesis
  proof (cases "loader env (requestPath env entrypoints ident imp)")
    case None
    with Some show ?thesis by simp
  next
    case (Some body)
    from resolveId_relative_write [OF ab Some, of st] assms(3) \<open>importer = Some imp\<close>
    have "virtualCache st' = (virtualCache st)(requestPath env entrypoints ident imp \<mapsto> body)"
      by auto
    with Some \<open>importer = Some imp\<close> show ?thesis
      by (simp add: load_def)
  qed
qed

lemma load_Str: "load st k = Str v \<longleftrightarrow> virtualCache st k = Some v"
  by (auto simp: load_def split: option.splits)

lemma stored_kept:
  assumes "\<forall>k v. virtualCache st k = Some v \<longrightarrow> virtualCache st' k = Some v"
    and "stored env entrypoints st req"
  shows "stored env entrypoints st' req"
proof -
  obtain ident importer where req: "req = (ident, importer)"
    by (cases req)
  show ?thesis
  proof (cases importer)
    case None
    with assms req show ?thesis
      by (auto simp: load_Str split: option.splits)
  next
    case (Some imp)
    with assms req show ?thesis
      by (auto simp: load_Str split: option.splits)
  qed
qed

lemma resolveAll_stored:
  assumes wf: "wfRegistry entrypoints"
    and ab: "\<forall>base ident. absolute (path_resolve env base ident)"
  shows "cacheInv env entrypoints st \<Longrightarrow> resolveAll env entrypoints st rs = Inr st' \<Longrightarrow>
         list_all (stored env entrypoints st') rs"
proof (induction rs arbitrary: st)
  case Nil
  then show ?case by simp
next
  case (Cons req rs)
  obtain ident importer where req: "req = (ident, importer)"
    by (cases req)
  from Cons.prems(2) req obtain r st1 where
    step: "resolveId env entrypoints st ident importer = Inr (r, st1)"
    and rest: "resolveAll env entrypoints st1 rs = Inr st'"
    by (auto split: sum.splits)
  have one: "resolveAll env entrypoints st [req] = Inr st1"
    using step by (simp add: req)
  from resolveAll_run [OF wf ab Cons.prems(1) one] have inv1: "cacheInv env entrypoints st1"
    by blast
  from resolveAll_run [OF wf ab inv1 rest]
  have keep: "\<forall>k v. virtualCache st1 k = Some v \<longrightarrow> virtualCache st' k = Some v"
    by blast
  have "stored env entrypoints st' req"
    using stored_kept [OF keep] stored_step [OF wf ab step] req by blast
  with Cons.IH [OF inv1 rest] show ?case
    by simp
qed

text \<open>
  Claim C1, as amended. The resolver does not memoise. A root resolution of a registered
  id stores the entry's source text under the id, whatever the cache held there, and a
  request with a defined importer whose path the loader compiles hands the path to the
  loader and stores the body under it, whatever the cache held there. Over one build run
  (any sequence of resolution requests that does not raise, split at any point into an
  earlier and a later part), the loader is therefore invoked once for every request with
  an importer, in order, also for a path that is cached already; after the run the cache
  holds what every request of the run stored; it holds nothing but an entry's source text
  under its id and the loader's body under a resolved path; and what it holds for an
  identifier after the earlier part is what \<^verbatim>\<open>load\<close> returns for it after the later part.
  This needs resolved paths to be absolute, as \<^verbatim>\<open>path.resolve\<close> makes them, and the
  loader to be a function of the path.
\<close>

theorem resolver_cache_stable:
  assumes "wfRegistry entrypoints"
    and "\<forall>base ident. absolute (path_resolve env base ident)"
    and "resolveAll env entrypoints initialState rs1 = Inr s1"
    and "resolveAll env entrypoints s1 rs2 = Inr s2"
  shows "(\<forall>st ident data. map_of entrypoints ident = Some data \<longrightarrow>
            resolveId env entrypoints st ident None =
              Inr (Some ident, st\<lparr>virtualCache := (virtualCache st)(ident \<mapsto> code data)\<rparr>))
       \<and> (\<forall>st ident imp body.
            loader env (requestPath env entrypoints ident imp) = Some body \<longrightarrow>
            resolveId env entrypoints st ident (Some imp) =
              Inr (Some (requestPath env entrypoints ident imp),
                   st\<lparr>loaderCalls := loaderCalls st @ [requestPath env entrypoints ident imp],
                      virtualCache :=
                        (virtualCache st)(requestPath env entrypoints ident imp \<mapsto> body)\<rparr>))
       \<and> loaderCalls s1 = loaderPaths env entrypoints rs1
       \<and> loaderCalls s2 = loaderCalls s1 @ loaderPaths env entrypoints rs2
       \<and> list_all (stored env entrypoints s2) (rs1 @ rs2)
       \<and> (\<forall>k v. virtualCache s1 k = Some v \<longrightarrow>
             load s2 k = Str v
             \<and> ((\<exists>data. map_of entrypoints k = Some data \<and> code data = v)
                \<or> loader env k = Some v))"
proof -
  have root: "resolveId env entrypoints st ident None =
              Inr (Some ident, st\<lparr>virtualCache := (virtualCache st)(ident \<mapsto> code data)\<rparr>)"
    if "map_of entrypoints ident = Some data" for st ident data
    using resolveId_root_write [OF assms(1) that] .
  have relative: "resolveId env entrypoints st ident (Some imp) =
              Inr (Some (requestPath env entrypoints ident imp),
                   st\<lparr>loaderCalls := loaderCalls st @ [requestPath env entrypoints ident imp],
                      virtualCache :=
                        (virtualCache st)(requestPath env entrypoints ident imp \<mapsto> body)\<rparr>)"
    if "loader env (requestPath env entrypoints ident imp) = Some body" for st ident imp body
  proof -
    have "absolute (requestPath env entrypoints ident imp)"
      using assms(2) by (simp add: requestPath_def)
    from resolveId_relative_write [OF this that] show ?thesis .
  qed
  have first: "cacheInv env entrypoints s1"
    using resolveAll_run [OF assms(1,2) cacheInv_initial assms(3)] by blast
  have second: "\<forall>k v. virtualCache s1 k = Some v \<longrightarrow> virtualCache s2 k = Some v"
    using resolveAll_run [OF assms(1,2) first assms(4)] by blast
  have trace1: "loaderCalls s1 = loaderPaths env entrypoints rs1"
    using resolveAll_trace [OF assms(3)] by (simp add: initialState_def)
  have trace2: "loaderCalls s2 = loaderCalls s1 @ loaderPaths env entrypoints rs2"
    using resolveAll_trace [OF assms(4)] .
  have early: "list_all (stored env entrypoints s1) rs1"
    using resolveAll_stored [OF assms(1,2) cacheInv_initial assms(3)] .
  then have "list_all (stored env entrypoints s2) rs1"
    using stored_kept [OF second] by (simp add: list_all_iff)
  moreover have "list_all (stored env entrypoints s2) rs2"
    using resolveAll_stored [OF assms(1,2) first assms(4)] .
  ultimately have all: "list_all (stored env entrypoints s2) (rs1 @ rs2)"
    by simp
  have content: "(\<exists>data. map_of entrypoints k = Some data \<and> code data = v) \<or> loader env k = Some v"
    if "virtualCache s1 k = Some v" for k v
    using first that unfolding cacheInv_def by blast
  have kept: "load s2 k = Str v" if "virtualCache s1 k = Some v" for k v
    using second that by (simp add: load_def)
  from root relative trace1 trace2 all content kept show ?thesis
    by blast
qed

text \<open>
  On the example site, with both entries importing \<^verbatim>\<open>shared.js\<close>: the second part of the
  run hands \<^verbatim>\<open>/site/shared.js\<close> to the loader again, and the cache still answers with the
  body stored in the first part.
\<close>

theorem resolver_cache_stable_witness:
  "wfRegistry exampleRegistry
   \<and> (\<forall>base ident. absolute (path_resolve exampleEnv base ident))
   \<and> loaderPaths exampleEnv exampleRegistry
        [(''e1.js'', None), (''./main.js'', Some ''e1.js''),
         (''../../shared.js'', Some ''/site/scenes/elf/main.js'')] =
       [''/site/scenes/elf/main.js'', ''/site/shared.js'']
   \<and> load \<lparr>virtualCache = [''e0.js'' \<mapsto> ''import shared from ./shared.js'',
                         ''/site/shared.js'' \<mapsto> ''export const shared = 1;'',
                         ''e1.js'' \<mapsto> ''import main from ./main.js'',
                         ''/site/scenes/elf/main.js'' \<mapsto> ''import shared from ../../shared.js'',
                         ''/site/shared.js'' \<mapsto> ''export const shared = 1;''],
        loaderCalls = [''/site/shared.js'', ''/site/scenes/elf/main.js'', ''/site/shared.js'']\<rparr>
        ''/site/shared.js'' = Str ''export const shared = 1;''"
proof -
  note run = resolver_cache_stable [OF wfRegistry_example example_absolute example_run1 example_run2]
  from run [THEN conjunct2, THEN conjunct2, THEN conjunct2, THEN conjunct1]
  have calls: "loaderPaths exampleEnv exampleRegistry
        [(''e1.js'', None), (''./main.js'', Some ''e1.js''),
         (''../../shared.js'', Some ''/site/scenes/elf/main.js'')] =
       [''/site/scenes/elf/main.js'', ''/site/shared.js'']"
    by simp
  from run [THEN conjunct2, THEN conjunct2, THEN conjunct2, THEN conjunct2, THEN conjunct2,
            rule_format, of "''/site/shared.js''" "''export const shared = 1;''"]
  have kept: "load \<lparr>virtualCache = [''e0.js'' \<mapsto> ''import shared from ./shared.js'',
                         ''/site/shared.js'' \<mapsto> ''export const shared = 1;'',
                         ''e1.js'' \<mapsto> ''import main from ./main.js'',
                         ''/site/scenes/elf/main.js'' \<mapsto> ''import shared from ../../shared.js'',
                         ''/site/shared.js'' \<mapsto> ''export const shared = 1;''],
        loaderCalls = [''/site/shared.js'', ''/site/scenes/elf/main.js'', ''/site/shared.js'']\<rparr>
        ''/site/shared.js'' = Str ''export const shared = 1;''"
    by simp
  from calls kept wfRegistry_example example_absolute show ?thesis
    by (intro conjI)
qed

text \<open>
  The claim as stated fails: two entries that import the same file make the resolver hand
  \<^verbatim>\<open>/site/shared.js\<close> to the loader twice in one run, and write its cache entry twice.
\<close>

theorem compile_once_counterexample:
  "resolveAll exampleEnv exampleRegistry initialState
     [(''e0.js'', None), (''./shared.js'', Some ''e0.js''), (''e1.js'', None),
      (''./main.js'', Some ''e1.js''), (''../../shared.js'', Some ''/site/scenes/elf/main.js'')] =
   Inr \<lparr>virtualCache = [''e0.js'' \<mapsto> ''import shared from ./shared.js'',
                         ''/site/shared.js'' \<mapsto> ''export const shared = 1;'',
                         ''e1.js'' \<mapsto> ''import main from ./main.js'',
                         ''/site/scenes/elf/main.js'' \<mapsto> ''import shared from ../../shared.js'',
                         ''/site/shared.js'' \<mapsto> ''export const shared = 1;''],
        loaderCalls = [''/site/shared.js'', ''/site/scenes/elf/main.js'', ''/site/shared.js'']\<rparr>
   \<and> compileCount
        \<lparr>virtualCache = [''e0.js'' \<mapsto> ''import shared from ./shared.js'',
                         ''/site/shared.js'' \<mapsto> ''export const shared = 1;'',
                         ''e1.js'' \<mapsto> ''import main from ./main.js'',
                         ''/site/scenes/elf/main.js'' \<mapsto> ''import shared from ../../shared.js'',
                         ''/site/shared.js'' \<mapsto> ''export const shared = 1;''],
        loaderCalls = [''/site/shared.js'', ''/site/scenes/elf/main.js'', ''/site/shared.js'']\<rparr>
        ''/site/shared.js'' = 2"
  by (simp add: resolveId_def Let_def cacheSet_def initialState_def compileCount_def
        example_e0 example_e1 example_not_registered example_paths example_loader)

section \<open>Properties of the virtual module content\<close>

lemma indexOf_props:
  "indexOf s needle = Some n \<Longrightarrow>
     take (length needle) (drop n s) = needle
     \<and> (\<forall>j<n. take (length needle) (drop j s) \<noteq> needle)"
proof (induction s arbitrary: n)
  case Nil
  then show ?case by (simp split: if_splits)
next
  case (Cons c cs)
  show ?case
  proof (cases "take (length needle) (c # cs) = needle")
    case True
    with Cons.prems show ?thesis by simp
  next
    case False
    with Cons.prems obtain m where m: "indexOf cs needle = Some m" and n: "n = Suc m"
      by auto
    from Cons.IH [OF m] have ih: "take (length needle) (drop m cs) = needle"
      "\<forall>j<m. take (length needle) (drop j cs) \<noteq> needle"
      by simp_all
    have "take (length needle) (drop j (c # cs)) \<noteq> needle" if "j < Suc m" for j
    proof (cases j)
      case 0
      with False show ?thesis by simp
    next
      case (Suc k)
      with that ih(2) show ?thesis by simp
    qed
    with ih(1) n show ?thesis by simp
  qed
qed

lemma indexOf_prefix: "indexOf (needle @ rest) needle = Some 0"
proof (cases "needle @ rest")
  case Nil
  then show ?thesis by simp
next
  case (Cons c cs)
  have "take (length needle) (needle @ rest) = needle" by simp
  then have "take (length needle) (c # cs) = needle" by (simp only: Cons)
  then have "indexOf (c # cs) needle = Some 0" by simp
  then show ?thesis by (simp only: Cons)
qed

lemma indexOf_exists:
  "s = before @ needle @ rest \<Longrightarrow> \<exists>n\<le>length before. indexOf s needle = Some n"
proof (induction before arbitrary: s)
  case Nil
  then show ?case by (simp add: indexOf_prefix)
next
  case (Cons b bs)
  then obtain n where "n \<le> length bs" "indexOf (bs @ needle @ rest) needle = Some n"
    by blast
  with Cons.prems show ?case by auto
qed

text \<open>
  Claim C8. For an identifier requested with no importer that contains the inline marker,
  the function returns at once the base64-decoded text of what follows the marker (its
  first occurrence, at position \<open>n\<close>): a text, not a promise, whatever the path functions
  and the scene matcher are, so neither the scene compiler nor the file system is involved.
\<close>

theorem virtualModuleContent_inline:
  assumes "ident = before @ inlineMarker @ suffix"
  shows "\<exists>n\<le>length before.
           take 3 (drop n ident) = inlineMarker
         \<and> (\<forall>j<n. take 3 (drop j ident) \<noteq> inlineMarker)
         \<and> virtualModuleContent env ident None = Inr (Text (fromBase64 env (drop (n + 3) ident)))"
proof -
  from indexOf_exists [OF assms] obtain n where
    n: "n \<le> length before" and found: "indexOf ident inlineMarker = Some n"
    by blast
  have len: "length inlineMarker = 3"
    by (simp add: inlineMarker_def)
  from indexOf_props [OF found] len
  have "take 3 (drop n ident) = inlineMarker" "\<forall>j<n. take 3 (drop j ident) \<noteq> inlineMarker"
    by simp_all
  moreover from found
  have "virtualModuleContent env ident None = Inr (Text (fromBase64 env (drop (n + 3) ident)))"
    by (simp add: virtualModuleContent_def)
  ultimately show ?thesis
    using n by blast
qed

lemma example_inline_source: "base64Ascii ''Y29uc29sZS5sb2coMSk7'' = ''console.log(1);''"
  by code_simp

text \<open>
  An entry whose id carries the base64 form of \<^verbatim>\<open>console.log(1);\<close> after the marker.
\<close>

theorem virtualModuleContent_inline_witness:
  "virtualModuleContent exampleContentEnv (''entry'' @ inlineMarker @ ''Y29uc29sZS5sb2coMSk7'') None =
     Inr (Text ''console.log(1);'')"
proof -
  have eq: "''entry'' @ inlineMarker @ ''Y29uc29sZS5sb2coMSk7'' = ''entry'' @ inlineMarker @ ''Y29uc29sZS5sb2coMSk7''"
    by (rule refl)
  from virtualModuleContent_inline [OF eq, of exampleContentEnv] obtain n where
    n: "n \<le> length ''entry''"
    and first: "take 3 (drop n (''entry'' @ inlineMarker @ ''Y29uc29sZS5sb2coMSk7'')) = inlineMarker"
    and res: "virtualModuleContent exampleContentEnv (''entry'' @ inlineMarker @ ''Y29uc29sZS5sb2coMSk7'') None =
       Inr (Text (fromBase64 exampleContentEnv (drop (n + 3) (''entry'' @ inlineMarker @ ''Y29uc29sZS5sb2coMSk7''))))"
    by blast
  have "n = 5"
  proof (rule ccontr)
    assume "n \<noteq> 5"
    with n have "n \<in> {0, 1, 2, 3, 4}" by auto
    with first show False
      by (auto simp: inlineMarker_def)
  qed
  with res show ?thesis
    by (simp add: inlineMarker_def exampleContentEnv_def example_inline_source)
qed

section \<open>Properties of entry extraction\<close>

lemma digit_cases: "n < 10 \<Longrightarrow> n \<in> {0, 1, 2, 3, 4, 5, 6, 7, 8, 9}" for n :: nat
  by auto

lemma of_char_digitChar: "a < 10 \<Longrightarrow> (of_char (digitChar a) :: nat) = 48 + a"
  using digit_cases [of a] by (auto simp: digitChar_def)

lemma digitChar_inj:
  assumes "a < 10" and "b < 10" and "digitChar a = digitChar b"
  shows "a = b"
proof -
  have "48 + a = (of_char (digitChar a) :: nat)"
    by (simp only: of_char_digitChar [OF assms(1)])
  also have "\<dots> = of_char (digitChar b)"
    by (simp only: assms(3))
  also have "\<dots> = 48 + b"
    by (rule of_char_digitChar [OF assms(2)])
  finally show ?thesis
    by simp
qed

lemma length_decimal: "length (decimal n) = 1 \<longleftrightarrow> n < 10"
proof (cases "n < 10")
  case True
  then show ?thesis by (simp add: decimal.simps)
next
  case False
  have "decimal (n div 10) \<noteq> []"
    by (subst decimal.simps) simp
  with False show ?thesis
    by (subst decimal.simps) (simp add: Suc_length_conv)
qed

lemma decimal_inj: "decimal n = decimal m \<Longrightarrow> n = m"
proof (induction n arbitrary: m rule: decimal.induct)
  case (1 n)
  show ?case
  proof (cases "n < 10")
    case True
    with "1.prems" have "m < 10"
      using length_decimal by metis
    with True "1.prems" show ?thesis
      by (simp add: decimal.simps digitChar_inj)
  next
    case False
    with "1.prems" have m: "\<not> m < 10"
      using length_decimal by metis
    from "1.prems" False m
    have "decimal (n div 10) @ [digitChar (n mod 10)] = decimal (m div 10) @ [digitChar (m mod 10)]"
      by (metis decimal.simps)
    then have d: "decimal (n div 10) = decimal (m div 10)"
      and r: "digitChar (n mod 10) = digitChar (m mod 10)"
      by simp_all
    from "1.IH" [OF False d] have "n div 10 = m div 10" .
    moreover from r have "n mod 10 = m mod 10"
      by (intro digitChar_inj) simp_all
    ultimately show ?thesis
      by (metis div_mult_mod_eq)
  qed
qed

lemma entryId_inj: "entryId n = entryId m \<Longrightarrow> n = m"
  by (simp add: entryId_def decimal_inj)

lemma wfRegistry_fresh:
  assumes "wfRegistry reg"
  shows "entryId (length reg) \<notin> fst ` set reg"
proof
  assume "entryId (length reg) \<in> fst ` set reg"
  then have "entryId (length reg) \<in> set (map fst reg)" by simp
  with assms have "entryId (length reg) \<in> set (map entryId [0..<length reg])"
    by (simp add: wfRegistry_def)
  then obtain k where "k < length reg" "entryId (length reg) = entryId k"
    by auto
  with entryId_inj show False by blast
qed

lemma mapSet_fresh: "k \<notin> fst ` set kvs \<Longrightarrow> mapSet kvs k v = kvs @ [(k, v)]"
  by (induction kvs) auto

lemma wfRegistry_append:
  "wfRegistry reg \<Longrightarrow> wfRegistry (reg @ [(entryId (length reg), e)])"
  by (simp add: wfRegistry_def)

lemma wfRegistry_distinct: "wfRegistry reg \<Longrightarrow> distinct (map fst reg)"
  by (simp add: wfRegistry_def distinct_map inj_on_def entryId_inj)

lemma wfRegistry_nth:
  "wfRegistry reg \<Longrightarrow> k < length reg \<Longrightarrow> fst (reg ! k) = entryId k"
  by (metis wfRegistry_def add_0 length_map nth_map nth_upt)

lemma wfRegistry_lookup:
  assumes "wfRegistry reg" and "k < length reg"
  shows "map_of reg (entryId k) = Some (snd (reg ! k))"
proof -
  have "(entryId k, snd (reg ! k)) \<in> set reg"
    using assms wfRegistry_nth [OF assms] by (metis nth_mem prod.collapse)
  with wfRegistry_distinct [OF assms(1)] show ?thesis
    by simp
qed

lemma newEntries_Cons:
  "newEntries file d nodes n (i # rest) =
     (entryId n, \<lparr>scriptNode = (file, i), dir = d, code = entryCode (nodes ! i)\<rparr>)
       # newEntries file d nodes (Suc n) rest"
proof -
  have "[n..<n + length (i # rest)] = n # [Suc n..<Suc n + length rest]"
    by (simp add: upt_conv_Cons del: upt_Suc)
  then show ?thesis
    unfolding newEntries_def by (simp del: upt_Suc)
qed

lemma newEntries_Nil: "newEntries file d nodes n [] = []"
  by (simp add: newEntries_def)

lemma newEntries_update:
  "i \<notin> set rest \<Longrightarrow> newEntries file d (nodes[i := x]) n rest = newEntries file d nodes n rest"
  by (induction rest arbitrary: n) (auto simp: newEntries_Nil newEntries_Cons)

lemma extractScripts_registry:
  assumes "wfRegistry reg" and "distinct positions"
    and "extractScripts file d reg nodes positions = (reg', nodes')"
  shows "reg' = reg @ newEntries file d nodes (length reg) positions"
  using assms
proof (induction positions arbitrary: reg nodes)
  case Nil
  then show ?case by (simp add: newEntries_Nil)
next
  case (Cons i rest)
  let ?e = "\<lparr>scriptNode = (file, i), dir = d, code = entryCode (nodes ! i)\<rparr>"
  let ?reg1 = "reg @ [(entryId (length reg), ?e)]"
  let ?nodes1 = "nodes[i := (nodes ! i)\<lparr>textContent := [], src := []\<rparr>]"
  have set: "mapSet reg (entryId (length reg)) ?e = ?reg1"
    using Cons.prems(1) by (simp add: mapSet_fresh wfRegistry_fresh)
  with Cons.prems(3) have run: "extractScripts file d ?reg1 ?nodes1 rest = (reg', nodes')"
    by (simp add: Let_def)
  have "reg' = ?reg1 @ newEntries file d ?nodes1 (length ?reg1) rest"
    using Cons.IH [OF wfRegistry_append [OF Cons.prems(1)] _ run] Cons.prems(2) by simp
  moreover have "newEntries file d ?nodes1 (length ?reg1) rest = newEntries file d nodes (Suc (length reg)) rest"
    using Cons.prems(2) by (simp add: newEntries_update)
  ultimately show ?case
    by (simp add: newEntries_Cons)
qed

lemma extractScripts_nodes:
  assumes "extractScripts file d reg nodes positions = (reg', nodes')"
  shows "length nodes' = length nodes
       \<and> (\<forall>j<length nodes. nodes' ! j =
             (if j \<in> set positions then (nodes ! j)\<lparr>textContent := [], src := []\<rparr> else nodes ! j))"
  using assms
proof (induction positions arbitrary: reg nodes)
  case Nil
  then show ?case by simp
next
  case (Cons i rest)
  let ?nodes1 = "nodes[i := (nodes ! i)\<lparr>textContent := [], src := []\<rparr>]"
  from Cons.prems obtain reg1 where run: "extractScripts file d reg1 ?nodes1 rest = (reg', nodes')"
    by (simp add: Let_def)
  from Cons.IH [OF run]
  have len: "length nodes' = length nodes"
    and nth: "\<forall>j<length nodes. nodes' ! j =
             (if j \<in> set rest then (?nodes1 ! j)\<lparr>textContent := [], src := []\<rparr> else ?nodes1 ! j)"
    by simp_all
  have "nodes' ! j = (if j \<in> set (i # rest) then (nodes ! j)\<lparr>textContent := [], src := []\<rparr> else nodes ! j)"
    if "j < length nodes" for j
    using nth that by (cases "j = i") auto
  with len show ?case by blast
qed

lemma newEntries_nth:
  "k < length positions \<Longrightarrow>
     newEntries file d nodes n positions ! k =
       (entryId (n + k), \<lparr>scriptNode = (file, positions ! k), dir = d,
                           code = entryCode (nodes ! (positions ! k))\<rparr>)"
  by (simp add: newEntries_def)

lemma wfRegistry_newEntries:
  "wfRegistry reg \<Longrightarrow> wfRegistry (reg @ newEntries file d nodes (length reg) positions)"
proof (induction positions arbitrary: reg)
  case Nil
  then show ?case by (simp add: newEntries_Nil)
next
  case (Cons i rest)
  from Cons.IH [OF wfRegistry_append [OF Cons.prems]] show ?case
    by (simp add: newEntries_Cons)
qed

text \<open>
  Claim C5. For every module script found in a document (a script element of type
  \<^verbatim>\<open>module\<close> that is not remote), extraction registers an entry point that refers to that
  node and to the document's directory. Its source text is exactly the one statement
  \<^verbatim>\<open>import '<src>';\<close> when the script has a \<open>src\<close> (a non-empty one, as the code tests it),
  where \<open><src>\<close> is the attribute value, prefixed with \<^verbatim>\<open>./\<close> unless it starts with a dot;
  it is the inline text of the script, unchanged, when the script has none. In both cases
  the node's text and its \<open>src\<close> are empty afterwards.
\<close>

theorem extractDocument_module_script:
  assumes "wfRegistry entrypoints"
    and "extractDocument env entrypoints doc = (entrypoints', doc')"
    and "i < length (scripts doc)"
    and "s = scripts doc ! i"
    and "stype s = ''module''"
    and "\<not> (src s \<noteq> [] \<and> isUrl env (src s))"
  shows "\<exists>k e. map_of entrypoints' (entryId (length entrypoints + k)) = Some e
           \<and> scriptNode e = (htmlFile doc, i)
           \<and> dir e = path_dirname env (htmlFile doc)
           \<and> code e =
               (if src s \<noteq> []
                then ''import '' @ [CHR 0x27]
                     @ (if startsWith (src s) ''.'' then src s else ''./'' @ src s)
                     @ [CHR 0x27] @ '';''
                else textContent s)
           \<and> textContent (scripts doc' ! i) = []
           \<and> src (scripts doc' ! i) = []"
proof -
  define positions where "positions = moduleScriptNodes (isUrl env) (scripts doc)"
  define d where "d = path_dirname env (htmlFile doc)"
  from assms(2) obtain nodes' where
    run: "extractScripts (htmlFile doc) d entrypoints (scripts doc) positions = (entrypoints', nodes')"
    and doc': "doc' = doc\<lparr>scripts := nodes'\<rparr>"
    by (auto simp: extractDocument_def positions_def d_def split: prod.splits)
  have dist: "distinct positions"
    by (simp add: positions_def moduleScriptNodes_def)
  have "i \<in> set positions"
    using assms(3-6) by (simp add: positions_def moduleScriptNodes_def isModuleScript_def)
  then obtain k where k: "k < length positions" and ik: "positions ! k = i"
    by (auto simp: in_set_conv_nth)
  have reg': "entrypoints' = entrypoints @ newEntries (htmlFile doc) d (scripts doc) (length entrypoints) positions"
    using extractScripts_registry [OF assms(1) dist run] .
  then have wf': "wfRegistry entrypoints'"
    using wfRegistry_newEntries [OF assms(1)] by simp
  have len: "length entrypoints + k < length entrypoints'"
    using k by (simp add: reg' newEntries_def)
  have "entrypoints' ! (length entrypoints + k) =
          (entryId (length entrypoints + k),
           \<lparr>scriptNode = (htmlFile doc, i), dir = d, code = entryCode (scripts doc ! i)\<rparr>)"
    using k ik by (simp add: reg' nth_append newEntries_nth)
  with wfRegistry_lookup [OF wf' len]
  have found: "map_of entrypoints' (entryId (length entrypoints + k)) =
          Some \<lparr>scriptNode = (htmlFile doc, i), dir = d, code = entryCode (scripts doc ! i)\<rparr>"
    by simp
  have "nodes' ! i = (scripts doc ! i)\<lparr>textContent := [], src := []\<rparr>"
    using extractScripts_nodes [OF run] assms(3) \<open>i \<in> set positions\<close> by simp
  then have cleared: "textContent (scripts doc' ! i) = []" "src (scripts doc' ! i) = []"
    by (simp_all add: doc')
  have "entryCode (scripts doc ! i) =
               (if src s \<noteq> []
                then ''import '' @ [CHR 0x27]
                     @ (if startsWith (src s) ''.'' then src s else ''./'' @ src s)
                     @ [CHR 0x27] @ '';''
                else textContent s)"
    by (simp add: entryCode_def assms(4))
  with found cleared show ?thesis
    by (intro exI [of _ k] exI [of _ "\<lparr>scriptNode = (htmlFile doc, i), dir = d, code = entryCode (scripts doc ! i)\<rparr>"])
       (simp add: d_def)
qed

lemma example_extraction:
  "extractDocument exampleExtractEnv [] exampleDocument =
     ([(''e0.js'', \<lparr>scriptNode = (''scenes/elf/index.html'', 2), dir = ''scenes/elf'',
                   code = ''import '' @ [CHR 0x27] @ ''./foo.js'' @ [CHR 0x27] @ '';''\<rparr>),
       (''e1.js'', \<lparr>scriptNode = (''scenes/elf/index.html'', 3), dir = ''scenes/elf'',
                   code = ''start();''\<rparr>)],
      \<lparr>htmlFile = ''scenes/elf/index.html'',
       scripts =
         [\<lparr>stype = ''module'', src = ''https://example.com/lib.js'', textContent = []\<rparr>,
          \<lparr>stype = [], src = ''third_party/lib.js'', textContent = []\<rparr>,
          \<lparr>stype = ''module'', src = [], textContent = []\<rparr>,
          \<lparr>stype = ''module'', src = [], textContent = []\<rparr>]\<rparr>)"
  by code_simp

lemma example_script:
  "scripts exampleDocument ! 2 = \<lparr>stype = ''module'', src = ''foo.js'', textContent = []\<rparr>"
  "length (scripts exampleDocument) = 4"
  "htmlFile exampleDocument = ''scenes/elf/index.html''"
  by (simp_all add: exampleDocument_def)

lemma example_document_dir:
  "path_dirname exampleExtractEnv ''scenes/elf/index.html'' = ''scenes/elf''"
  unfolding exampleExtractEnv_def by (simp; code_simp)

lemma example_not_remote: "\<not> isUrl exampleExtractEnv ''foo.js''"
  by (simp add: exampleExtractEnv_def startsWith_def)

text \<open>
  The example of the specification: the module script with \<^verbatim>\<open>src="foo.js"\<close> becomes an
  entry whose source is \<^verbatim>\<open>import './foo.js';\<close>.
\<close>

theorem extractDocument_module_script_witness:
  "wfRegistry []
   \<and> (\<exists>k e. map_of [(''e0.js'', \<lparr>scriptNode = (''scenes/elf/index.html'', 2), dir = ''scenes/elf'',
                               code = ''import '' @ [CHR 0x27] @ ''./foo.js'' @ [CHR 0x27] @ '';''\<rparr>),
                    (''e1.js'', \<lparr>scriptNode = (''scenes/elf/index.html'', 3), dir = ''scenes/elf'',
                               code = ''start();''\<rparr>)] (entryId (length ([] :: registry) + k)) = Some e
         \<and> scriptNode e = (''scenes/elf/index.html'', 2)
         \<and> dir e = ''scenes/elf''
         \<and> code e = ''import '' @ [CHR 0x27] @ ''./foo.js'' @ [CHR 0x27] @ '';'')"
proof -
  have wf: "wfRegistry []"
    by (simp add: wfRegistry_def)
  have i: "2 < length (scripts exampleDocument)"
    by (simp add: example_script)
  have s: "\<lparr>stype = ''module'', src = ''foo.js'', textContent = []\<rparr> = scripts exampleDocument ! 2"
    by (simp add: example_script)
  have m: "stype \<lparr>stype = ''module'', src = ''foo.js'', textContent = []\<rparr> = ''module''"
    by simp
  have r: "\<not> (src \<lparr>stype = ''module'', src = ''foo.js'', textContent = []\<rparr> \<noteq> []
             \<and> isUrl exampleExtractEnv (src \<lparr>stype = ''module'', src = ''foo.js'', textContent = []\<rparr>))"
    by (simp add: example_not_remote)
  from extractDocument_module_script [OF wf example_extraction i s m r] wf show ?thesis
    by (simp add: example_script example_document_dir startsWith_def)
qed

text \<open>Extraction keeps the registry in the form the resolver's properties assume.\<close>

lemma wfRegistry_extractDocument:
  assumes "wfRegistry entrypoints" and "extractDocument env entrypoints doc = (entrypoints', doc')"
  shows "wfRegistry entrypoints'"
proof -
  from assms(2) obtain nodes' where
    run: "extractScripts (htmlFile doc) (path_dirname env (htmlFile doc)) entrypoints (scripts doc)
            (moduleScriptNodes (isUrl env) (scripts doc)) = (entrypoints', nodes')"
    by (auto simp: extractDocument_def split: prod.splits)
  have "distinct (moduleScriptNodes (isUrl env) (scripts doc))"
    by (simp add: moduleScriptNodes_def)
  from extractScripts_registry [OF assms(1) this run] wfRegistry_newEntries [OF assms(1)]
  show ?thesis by simp
qed

lemma wfRegistry_extractAll:
  "wfRegistry entrypoints \<Longrightarrow> extractAll env entrypoints docs = (entrypoints', docs')
     \<Longrightarrow> wfRegistry entrypoints'"
proof (induction docs arbitrary: entrypoints docs')
  case Nil
  then show ?case by simp
next
  case (Cons doc docs)
  from Cons.prems(2) obtain reg1 doc1 docs1 where
    one: "extractDocument env entrypoints doc = (reg1, doc1)"
    and rest: "extractAll env reg1 docs = (entrypoints', docs1)"
    by (auto split: prod.splits)
  from Cons.IH [OF wfRegistry_extractDocument [OF Cons.prems(1) one] rest] show ?case .
qed

section \<open>Properties of the release build\<close>

subsection \<open>The ledger of missing messages\<close>

lemma map_of_mapSet: "map_of (mapSet kvs k v) = (map_of kvs)(k \<mapsto> v)"
  by (induction kvs) auto

lemma recordMissing_inherited:
  assumes "msgid \<in> set objectPrototypeKeys" and "map_of missingMessages msgid = None"
  shows "recordMissing missingMessages lang msgid =
           Inl (TypeError ''missingMessages[msgid].add is not a function'')"
  using assms by (simp add: recordMissing_def hasProperty_def)

lemma recordMissing_own:
  assumes "msgid \<notin> set objectPrototypeKeys"
  shows "recordMissing missingMessages lang msgid =
           Inr (mapSet (if map_of missingMessages msgid = None
                        then mapSet missingMessages msgid [] else missingMessages) msgid
                  (setAdd (case map_of missingMessages msgid of None \<Rightarrow> [] | Some s \<Rightarrow> s) lang))"
proof (cases "map_of missingMessages msgid")
  case None
  then have "msgid \<notin> fst ` set missingMessages"
    by (simp add: map_of_eq_None_iff)
  with assms None show ?thesis
    by (simp add: recordMissing_def hasProperty_def map_of_mapSet)
next
  case (Some s)
  then have "msgid \<in> fst ` set missingMessages"
    by (metis map_of_eq_None_iff option.distinct(1))
  with Some show ?thesis
    by (simp add: recordMissing_def hasProperty_def)
qed

lemma recordMissing_recorded:
  assumes "msgid \<notin> set objectPrototypeKeys"
  shows "\<exists>mm'. recordMissing mm lang msgid = Inr mm'
           \<and> recorded mm' lang msgid
           \<and> (\<forall>l m. recorded mm l m \<longrightarrow> recorded mm' l m)"
proof -
  let ?mm' = "mapSet (if map_of mm msgid = None then mapSet mm msgid [] else mm) msgid
                  (setAdd (case map_of mm msgid of None \<Rightarrow> [] | Some s \<Rightarrow> s) lang)"
  have "recorded ?mm' lang msgid"
    by (simp add: recorded_def map_of_mapSet setAdd_def)
  moreover have "recorded ?mm' l m" if "recorded mm l m" for l m
    using that by (auto simp: recorded_def map_of_mapSet setAdd_def split: option.splits)
  ultimately show ?thesis
    using recordMissing_own [OF assms] by blast
qed

text \<open>
  For message ids that are not names of \<^verbatim>\<open>Object.prototype\<close>, loading records every
  reported absence and drops none.
\<close>

lemma recordAll_complete:
  assumes "\<forall>(lang, msgid) \<in> set reports. msgid \<notin> set objectPrototypeKeys"
  shows "\<exists>mm'. recordAll mm reports = Inr mm'
           \<and> (\<forall>(lang, msgid) \<in> set reports. recorded mm' lang msgid)
           \<and> (\<forall>l m. recorded mm l m \<longrightarrow> recorded mm' l m)"
  using assms
proof (induction reports arbitrary: mm)
  case Nil
  then show ?case by simp
next
  case (Cons r reports)
  obtain lang msgid where r: "r = (lang, msgid)"
    by (cases r)
  with Cons.prems have ok: "msgid \<notin> set objectPrototypeKeys"
    by simp
  from recordMissing_recorded [OF ok, of mm lang] obtain mm1 where
    step: "recordMissing mm lang msgid = Inr mm1"
    and here: "recorded mm1 lang msgid"
    and keep1: "\<forall>l m. recorded mm l m \<longrightarrow> recorded mm1 l m"
    by blast
  from Cons.prems have "\<forall>(lang, msgid) \<in> set reports. msgid \<notin> set objectPrototypeKeys"
    by simp
  from Cons.IH [OF this, of mm1] obtain mm' where
    run: "recordAll mm1 reports = Inr mm'"
    and all: "\<forall>(lang, msgid) \<in> set reports. recorded mm' lang msgid"
    and keep: "\<forall>l m. recorded mm1 l m \<longrightarrow> recorded mm' l m"
    by blast
  from step run have "recordAll mm (r # reports) = Inr mm'"
    by (simp add: r)
  moreover from here keep all have "\<forall>(lang, msgid) \<in> set (r # reports). recorded mm' lang msgid"
    by (simp add: r)
  moreover from keep1 keep have "\<forall>l m. recorded mm l m \<longrightarrow> recorded mm' l m"
    by blast
  ultimately show ?case
    by blast
qed

text \<open>
  Claim C3 says that after catalog loading every reported absence of a message id \<open>M\<close> in
  a language \<open>L\<close> is in the ledger under the key \<open>M\<close>. The callback misses the message ids
  that a plain object inherits: for the id \<^verbatim>\<open>constructor\<close>, \<^verbatim>\<open>msgid in missingMessages\<close> is
  true on the empty ledger, no set is created, and \<^verbatim>\<open>missingMessages[msgid].add(lang)\<close>
  raises. Loading ends there, with the absence unrecorded.
\<close>

theorem recordAll_inherited_name:
  "recordAll [] [(''fr'', ''scene_elf''), (''fr'', ''constructor'')] =
     Inl (TypeError ''missingMessages[msgid].add is not a function'')"
  by (simp add: recordMissing_def hasProperty_def setAdd_def objectPrototypeKeys_def)

subsection \<open>The default language\<close>

text \<open>
  For a default language that is neither loaded nor a name inherited from
  \<^verbatim>\<open>Object.prototype\<close>, the build raises before it writes or copies any file: its only
  effects are the two output directories made at the start, no stage recovers, and the
  process reports the error and exits with status 1. The error is the one of the check,
  unless the ledger's callback raised already while the catalogs were loaded.
\<close>

lemma release_unknown_default_language:
  assumes "defaultLang cfg \<notin> fst ` set (languages (catalogs env))"
    and "defaultLang cfg \<notin> set objectPrototypeKeys"
  shows "\<exists>err. release cfg env = ([Mkdirp ''dist/static'', Mkdirp ''dist/prod''], Some err)
           \<and> main cfg env = ([Mkdirp ''dist/static'', Mkdirp ''dist/prod'', Warn err], 1)
           \<and> filter isOutput (fst (main cfg env)) = []
           \<and> err = (case recordAll [] (absences (catalogs env)) of
                      Inl e \<Rightarrow> e
                    | Inr missingMessages \<Rightarrow>
                        Error (''default lang '' @ [CHR 0x27] @ defaultLang cfg @ [CHR 0x27]
                               @ '' not found in _messages''))"
  using assms by (simp add: release_def main_def hasProperty_def split: sum.splits)

lemma release_example_unknown_default_language:
  "main (exampleConfig\<lparr>defaultLang := ''nl''\<rparr>) exampleBuildEnv =
     ([Mkdirp ''dist/static'', Mkdirp ''dist/prod'',
       Warn (Error (''default lang '' @ [CHR 0x27] @ ''nl'' @ [CHR 0x27] @ '' not found in _messages''))], 1)"
  by code_simp

text \<open>
  Claim C2 says that the build raises, before any output document is written, whenever the
  configured default language is absent from the loaded languages. The check is
  \<^verbatim>\<open>yargs.defaultLang in langs\<close>, which is also true for a name that \<^verbatim>\<open>langs\<close> inherits. In
  the example build with \<^verbatim>\<open>--default-lang constructor\<close> and every language generated, no
  catalog of that name is loaded, yet the check passes: the build copies the assets, writes
  every page, scene and manifest for every loaded language under \<^verbatim>\<open>intl/\<close> (none at the
  root of the site), writes the bundles, and exits with status 0.
\<close>

theorem release_inherited_default_language:
  "''constructor'' \<notin> fst ` set (languages (catalogs exampleBuildEnv))
   \<and> snd (main (exampleConfig\<lparr>defaultLang := ''constructor'', defaultOnly := False\<rparr>) exampleBuildEnv) = 0
   \<and> filter isOutput
        (fst (main (exampleConfig\<lparr>defaultLang := ''constructor'', defaultOnly := False\<rparr>) exampleBuildEnv)) =
       [CopyFile ''prod/images/logo.png'' ''dist/prod/images/logo.png'',
        WriteFile ''dist/prod/intl/en_ALL/error.html'' ''en:error'',
        WriteFile ''dist/prod/intl/fr_ALL/error.html'' ''fr:error'',
        WriteFile ''dist/prod/intl/de_ALL/error.html'' ''de:error'',
        WriteFile ''dist/prod/intl/en_ALL/index.html'' ''en:santatracker'',
        WriteFile ''dist/prod/intl/fr_ALL/index.html'' ''fr:santatracker'',
        WriteFile ''dist/prod/intl/de_ALL/index.html'' ''de:santatracker'',
        WriteFile ''dist/prod/intl/en_ALL/elf.html'' ''en:scene_elf'',
        WriteFile ''dist/prod/intl/fr_ALL/elf.html'' ''fr:scene_elf'',
        WriteFile ''dist/prod/intl/de_ALL/elf.html'' ''de:scene_elf'',
        WriteFile ''dist/prod/intl/en_ALL/manifest.json'' ''en:santatracker'',
        WriteFile ''dist/prod/intl/fr_ALL/manifest.json'' ''fr:santatracker'',
        WriteFile ''dist/prod/intl/de_ALL/manifest.json'' ''de:santatracker'',
        WriteFile ''dist/static/src/e0.js'' (''import '' @ [CHR 0x27] @ ''./foo.js'' @ [CHR 0x27] @ '';''),
        WriteFile ''dist/static/src/e1.js'' ''start();'']"
  by code_simp

text \<open>
  With \<^verbatim>\<open>--default-only\<close> as well, the removal deletes every loaded language: no page is
  written for any language, and the summary divides by zero.
\<close>

lemma release_inherited_default_only:
  "main (exampleConfig\<lparr>defaultLang := ''constructor''\<rparr>) exampleBuildEnv =
     ([Mkdirp ''dist/static'', Mkdirp ''dist/prod'',
       Mkdirp ''dist/prod/images'',
       CopyFile ''prod/images/logo.png'' ''dist/prod/images/logo.png'',
       WriteFile ''dist/static/src/e0.js'' (''import '' @ [CHR 0x27] @ ''./foo.js'' @ [CHR 0x27] @ '';''),
       WriteFile ''dist/static/src/e1.js'' ''start();'',
       MissingInfoByZero ''scene_elf'' 2 [''fr'', ''de'']], 0)"
  by code_simp

subsection \<open>The summary of missing messages\<close>

text \<open>The summary closes a successful build, and its ratios are taken over \<^verbatim>\<open>langs\<close> as the
  removal of the other languages left it.\<close>

lemma release_summary:
  assumes "release cfg env = (effects, None)"
  shows "\<exists>missingMessages before.
           recordAll [] (absences (catalogs env)) = Inr missingMessages
         \<and> effects = before @ missingSummary missingMessages
                 (if defaultOnly cfg
                  then filter (\<lambda>(otherLang, messages). otherLang = defaultLang cfg)
                         (languages (catalogs env))
                  else languages (catalogs env))"
  using assms
  by (auto simp: release_def Let_def split: sum.splits if_splits prod.splits option.splits)

text \<open>
  Claim C4 says that with \<^verbatim>\<open>--default-only\<close> the summary reports, for each missing message
  id, the size of its set of languages divided by the number of loaded languages. The
  ledger is indeed filled for every loaded language before the other languages are removed,
  and the summary does not change the exit status; but the ratio is computed at the end of
  the build, over \<^verbatim>\<open>Object.keys(langs).length\<close> after the removal, which is 1. In the
  example build three languages are loaded and two of them lack \<^verbatim>\<open>scene_elf\<close>: the
  summary reports 200 percent, not two thirds.
\<close>

theorem summary_ratio_default_only:
  "filter isMissingInfo (fst (main exampleConfig exampleBuildEnv)) =
     [MissingInfo ''scene_elf'' 200 [''fr'', ''de'']]
   \<and> length (languages (catalogs exampleBuildEnv)) = 3
   \<and> snd (main exampleConfig exampleBuildEnv) = 0"
  by code_simp

text \<open>
  Without \<^verbatim>\<open>--default-only\<close> the same build reports two thirds.
\<close>

lemma summary_ratio_all_languages:
  "filter isMissingInfo (fst (main (exampleConfig\<lparr>defaultOnly := False\<rparr>) exampleBuildEnv)) =
     [MissingInfo ''scene_elf'' (200 / 3) [''fr'', ''de'']]"
  by code_simp

end
